theory Spec2Isabelle
  imports Main "HOL-Library.Multiset"
begin

section \<open>Competitive intelligence and strategy classifier\<close>

text \<open>
  A shallow embedding of the classifier functions of \<^verbatim>\<open>src/utils/graphql.ts\<close>
  (the competitive-intelligence module) and of \<^verbatim>\<open>isAddressOfType\<close> from
  \<^verbatim>\<open>src/utils/contracts.ts\<close>.

  Conventions of the embedding:
  \<^item> a JavaScript string is a \<^typ>\<open>string\<close>; a character stands for one code unit
    below 256;
  \<^item> a \<^verbatim>\<open>bigint\<close> is an \<^typ>\<open>int\<close>; the small counters and scores held in
    JavaScript numbers are \<^typ>\<open>nat\<close> (they stay far below \<open>2^53\<close>);
  \<^item> a \<^verbatim>\<open>Record<string, T>\<close> is the list of its own entries in the order
    \<^verbatim>\<open>Object.entries\<close> enumerates them, with pairwise distinct keys; a key may be any
    string, \<^verbatim>\<open>"__proto__"\<close> included;
  \<^item> the declared types are not checked at run time: the \<^verbatim>\<open>resourceBalances\<close>
    argument of a classifier, an answer of the indexer and its elements, and an entry of
    the map handed to \<^verbatim>\<open>analyzeCompetitorStrategies\<close> may be \<^verbatim>\<open>undefined\<close> or
    \<^verbatim>\<open>null\<close>;
  \<^item> a thrown exception is the left injection of a sum type; every
    \<^verbatim>\<open>try/catch\<close> of the source is a case distinction on such a sum.
\<close>

subsection \<open>JavaScript values and built-ins\<close>

text \<open>Thrown values, each with its message.\<close>

datatype js_error = SyntaxError string | TypeError string | Error string

fun message :: "js_error \<Rightarrow> string" where
  "message (SyntaxError m) = m"
| "message (TypeError m) = m"
| "message (Error m) = m"

text \<open>A value of type \<^verbatim>\<open>T | undefined | null\<close>.\<close>

datatype 'a nullable = Undefined | Null | Val 'a

text \<open>The white space that \<^verbatim>\<open>StringToBigInt\<close> strips: TAB, LF, VT, FF, CR, SP, NBSP.\<close>

definition isStrWhiteSpaceChar :: "char \<Rightarrow> bool" where
  "isStrWhiteSpaceChar c =
     (let n = (of_char c :: nat)
      in n = 9 \<or> n = 10 \<or> n = 11 \<or> n = 12 \<or> n = 13 \<or> n = 32 \<or> n = 160)"

definition trimString :: "string \<Rightarrow> string" where
  "trimString s =
     rev (dropWhile isStrWhiteSpaceChar (rev (dropWhile isStrWhiteSpaceChar s)))"

text \<open>The value of one digit character, for radices up to sixteen.\<close>

definition digitValue :: "char \<Rightarrow> nat option" where
  "digitValue c =
     (let n = (of_char c :: nat)
      in if 48 \<le> n \<and> n \<le> 57 then Some (n - 48)
         else if 97 \<le> n \<and> n \<le> 102 then Some (n - 87)
         else if 65 \<le> n \<and> n \<le> 70 then Some (n - 55)
         else None)"

fun digitsValue :: "nat \<Rightarrow> nat \<Rightarrow> string \<Rightarrow> nat option" where
  "digitsValue r acc [] = Some acc"
| "digitsValue r acc (c # cs) =
     (case digitValue c of
        None \<Rightarrow> None
      | Some d \<Rightarrow> if d < r then digitsValue r (acc * r + d) cs else None)"

text \<open>One or more digits of the radix; \<open>None\<close> when there is none or a foreign character.\<close>

definition parseDigits :: "nat \<Rightarrow> string \<Rightarrow> nat option" where
  "parseDigits r s = (if s = [] then None else digitsValue r 0 s)"

text \<open>
  \<^verbatim>\<open>BigInt(value)\<close> on a string (ECMAScript \<^verbatim>\<open>StringToBigInt\<close>): the trimmed text is
  empty (zero), a radix-prefixed literal without sign, or decimal digits with an
  optional sign; anything else throws a \<^verbatim>\<open>SyntaxError\<close>.
\<close>

definition notABigInt :: js_error where
  "notABigInt = SyntaxError ''Cannot convert string to a BigInt''"

definition ofDigits :: "nat option \<Rightarrow> js_error + int" where
  "ofDigits r = (case r of None \<Rightarrow> Inl notABigInt | Some n \<Rightarrow> Inr (int n))"

fun parseIntegerLiteral :: "string \<Rightarrow> js_error + int" where
  "parseIntegerLiteral [] = Inr 0"
| "parseIntegerLiteral (c # cs) =
     (if c = CHR ''0'' \<and> cs \<noteq> [] \<and> (hd cs = CHR ''x'' \<or> hd cs = CHR ''X'')
        then ofDigits (parseDigits 16 (tl cs))
      else if c = CHR ''0'' \<and> cs \<noteq> [] \<and> (hd cs = CHR ''o'' \<or> hd cs = CHR ''O'')
        then ofDigits (parseDigits 8 (tl cs))
      else if c = CHR ''0'' \<and> cs \<noteq> [] \<and> (hd cs = CHR ''b'' \<or> hd cs = CHR ''B'')
        then ofDigits (parseDigits 2 (tl cs))
      else if c = CHR ''+'' then ofDigits (parseDigits 10 cs)
      else if c = CHR ''-''
        then (case parseDigits 10 cs of
                None \<Rightarrow> Inl notABigInt
              | Some n \<Rightarrow> Inr (- int n))
      else ofDigits (parseDigits 10 (c # cs)))"

definition BigInt :: "string \<Rightarrow> js_error + int" where
  "BigInt s = parseIntegerLiteral (trimString s)"

subsection \<open>Safe numeric conversion\<close>

text \<open>
  \<^verbatim>\<open>if (!value) return defaultValue; try { return BigInt(value) } catch { return defaultValue }\<close>.
  The falsy values of the parameter's type are \<^verbatim>\<open>undefined\<close>, \<^verbatim>\<open>null\<close> and the
  empty string.
\<close>

definition safeBigIntConversion :: "string nullable \<Rightarrow> int \<Rightarrow> int" where
  "safeBigIntConversion v defaultValue =
     (case v of
        Undefined \<Rightarrow> defaultValue
      | Null \<Rightarrow> defaultValue
      | Val s \<Rightarrow>
          if s = [] then defaultValue
          else (case BigInt s of Inr n \<Rightarrow> n | Inl e \<Rightarrow> defaultValue))"

text \<open>
  The property's reading of a well-formed non-negative integer string: one or more
  decimal digits, denoting the number they spell.
\<close>

definition isDecimalDigit :: "char \<Rightarrow> bool" where
  "isDecimalDigit c = (48 \<le> (of_char c :: nat) \<and> (of_char c :: nat) \<le> 57)"

definition wellFormedNonNegative :: "string \<Rightarrow> bool" where
  "wellFormedNonNegative s = (s \<noteq> [] \<and> list_all isDecimalDigit s)"

definition decimalValue :: "string \<Rightarrow> nat" where
  "decimalValue s = foldl (\<lambda>a c. 10 * a + ((of_char c :: nat) - 48)) 0 s"

text \<open>\<^verbatim>\<open>bigint.toString()\<close>: decimal digits, most significant first, after a minus sign.\<close>

definition digitChar :: "nat \<Rightarrow> char" where
  "digitChar d = ''0123456789'' ! d"

fun natDigits :: "nat \<Rightarrow> string" where
  "natDigits n = (if n < 10 then [digitChar n] else natDigits (n div 10) @ [digitChar (n mod 10)])"

declare natDigits.simps [simp del]

definition toString :: "int \<Rightarrow> string" where
  "toString i = (if i < 0 then CHR ''-'' # natDigits (nat (- i)) else natDigits (nat i))"

text \<open>
  \<^verbatim>\<open>toLowerCase\<close> on code units below 256: the capital letters of ASCII and the
  capital letters U+00C0 to U+00DE (without the sign U+00D7) have a lower-case
  counterpart 32 places on; every other code unit is kept.
\<close>

definition upperLetters :: string where
  "upperLetters = ''ABCDEFGHIJKLMNOPQRSTUVWXYZ''"

definition lowerLetters :: string where
  "lowerLetters = ''abcdefghijklmnopqrstuvwxyz''"

definition upperLatin1 :: string where
  "upperLatin1 =
     [CHR 0xC0, CHR 0xC1, CHR 0xC2, CHR 0xC3, CHR 0xC4, CHR 0xC5, CHR 0xC6, CHR 0xC7,
      CHR 0xC8, CHR 0xC9, CHR 0xCA, CHR 0xCB, CHR 0xCC, CHR 0xCD, CHR 0xCE, CHR 0xCF,
      CHR 0xD0, CHR 0xD1, CHR 0xD2, CHR 0xD3, CHR 0xD4, CHR 0xD5, CHR 0xD6,
      CHR 0xD8, CHR 0xD9, CHR 0xDA, CHR 0xDB, CHR 0xDC, CHR 0xDD, CHR 0xDE]"

definition lowerLatin1 :: string where
  "lowerLatin1 =
     [CHR 0xE0, CHR 0xE1, CHR 0xE2, CHR 0xE3, CHR 0xE4, CHR 0xE5, CHR 0xE6, CHR 0xE7,
      CHR 0xE8, CHR 0xE9, CHR 0xEA, CHR 0xEB, CHR 0xEC, CHR 0xED, CHR 0xEE, CHR 0xEF,
      CHR 0xF0, CHR 0xF1, CHR 0xF2, CHR 0xF3, CHR 0xF4, CHR 0xF5, CHR 0xF6,
      CHR 0xF8, CHR 0xF9, CHR 0xFA, CHR 0xFB, CHR 0xFC, CHR 0xFD, CHR 0xFE]"

definition toLowerCaseChar :: "char \<Rightarrow> char" where
  "toLowerCaseChar c =
     (case map_of (zip (upperLetters @ upperLatin1) (lowerLetters @ lowerLatin1)) c of
        None \<Rightarrow> c
      | Some l \<Rightarrow> l)"

definition toLowerCase :: "string \<Rightarrow> string" where
  "toLowerCase s = map toLowerCaseChar s"

text \<open>
  \<^verbatim>\<open>toUpperCase\<close> on the letters of ASCII; the source takes it only of the first
  letter of \<^verbatim>\<open>graphene\<close>, \<^verbatim>\<open>yttrium\<close>, \<^verbatim>\<open>carbon\<close> and \<^verbatim>\<open>neodymium\<close>.
\<close>

definition toUpperCaseChar :: "char \<Rightarrow> char" where
  "toUpperCaseChar c =
     (case map_of (zip lowerLetters upperLetters) c of None \<Rightarrow> c | Some u \<Rightarrow> u)"

text \<open>\<^verbatim>\<open>s.charAt(0).toUpperCase() + s.slice(1)\<close>\<close>

definition capitalize :: "string \<Rightarrow> string" where
  "capitalize s = (case s of [] \<Rightarrow> [] | c # cs \<Rightarrow> toUpperCaseChar c # cs)"

text \<open>\<^verbatim>\<open>s.includes(t)\<close>: \<open>t\<close> occurs in \<open>s\<close> as a contiguous piece.\<close>

fun startsWith :: "string \<Rightarrow> string \<Rightarrow> bool" where
  "startsWith s [] = True"
| "startsWith [] (c # cs) = False"
| "startsWith (x # xs) (c # cs) = (x = c \<and> startsWith xs cs)"

fun includesString :: "string \<Rightarrow> string \<Rightarrow> bool" where
  "includesString [] t = (t = [])"
| "includesString (x # xs) t = (startsWith (x # xs) t \<or> includesString xs t)"

text \<open>
  \<^verbatim>\<open>Array.prototype.sort(compare)\<close> is stable; for a comparison that orders the
  elements consistently its result is the one of insertion sort, where an element
  goes in front of the first one it does not compare greater than.
\<close>

fun insertBy :: "('a \<Rightarrow> 'a \<Rightarrow> int) \<Rightarrow> 'a \<Rightarrow> 'a list \<Rightarrow> 'a list" where
  "insertBy compare x [] = [x]"
| "insertBy compare x (y # ys) =
     (if compare x y \<le> 0 then x # y # ys else y # insertBy compare x ys)"

definition sortBy :: "('a \<Rightarrow> 'a \<Rightarrow> int) \<Rightarrow> 'a list \<Rightarrow> 'a list" where
  "sortBy compare xs = foldr (insertBy compare) xs []"

text \<open>
  Reading a property of a record: \<^verbatim>\<open>undefined\<close> where the key is absent. The keys read
  by the source are fixed names, none of them a member of \<^verbatim>\<open>Object.prototype\<close>.
\<close>

definition property :: "(string \<times> 'a) list \<Rightarrow> string \<Rightarrow> 'a nullable" where
  "property obj k = (case map_of obj k of None \<Rightarrow> Undefined | Some v \<Rightarrow> Val v)"

text \<open>
  An assignment \<^verbatim>\<open>obj[key] = value\<close> to an object created by \<^verbatim>\<open>{}\<close>. For the key
  \<^verbatim>\<open>"__proto__"\<close> the setter inherited from \<^verbatim>\<open>Object.prototype\<close> runs: it changes the
  prototype (for an object value) or does nothing (for a primitive value), and in
  neither case does the object get an entry of its own. Where the order of the entries
  matters, the keys assigned are those of another record in the order it enumerates
  them, so that each new entry is the last one enumerated.
\<close>

definition ownKey :: "string \<Rightarrow> bool" where
  "ownKey k = (k \<noteq> ''__proto__'')"

definition assignEntry :: "(string \<times> 'a) list \<Rightarrow> string \<Rightarrow> 'a \<Rightarrow> (string \<times> 'a) list" where
  "assignEntry obj k v = (if ownKey k then obj @ [(k, v)] else obj)"

definition assign :: "(string \<rightharpoonup> 'a) \<Rightarrow> string \<Rightarrow> 'a \<Rightarrow> (string \<rightharpoonup> 'a)" where
  "assign obj k v = (if ownKey k then obj(k \<mapsto> v) else obj)"

text \<open>\<^verbatim>\<open>Object.entries(value)\<close> throws a \<^verbatim>\<open>TypeError\<close> on \<^verbatim>\<open>undefined\<close> and \<^verbatim>\<open>null\<close>.\<close>

definition notAnObject :: js_error where
  "notAnObject = TypeError ''Cannot convert undefined or null to object''"

definition entriesOf :: "'a list nullable \<Rightarrow> js_error + 'a list" where
  "entriesOf obj =
     (case obj of Val entries \<Rightarrow> Inr entries | Undefined \<Rightarrow> Inl notAnObject | Null \<Rightarrow> Inl notAnObject)"

subsection \<open>Contract addresses (\<^verbatim>\<open>src/utils/contracts.ts\<close>)\<close>

datatype ContractCategory = core | resources | lpPairs | reactors | agents

text \<open>
  The imported \<^verbatim>\<open>contracts.json\<close> is not among the sources; its content is a
  parameter of every function that reads it: for each category the record of names
  and addresses, or nothing where the file has no such category.
\<close>

type_synonym contracts = "ContractCategory \<Rightarrow> (string \<times> string) list option"

text \<open>
  \<^verbatim>\<open>isAddressOfType(address, category, tokenType?)\<close>. With strings for the address
  and for the configured addresses, nothing inside its \<^verbatim>\<open>try\<close> block throws.
\<close>

definition isAddressOfType ::
  "contracts \<Rightarrow> string \<Rightarrow> ContractCategory \<Rightarrow> string option \<Rightarrow> bool" where
  "isAddressOfType contractAddresses address category tokenType =
     (case contractAddresses category of
        None \<Rightarrow> False
      | Some categoryAddresses \<Rightarrow>
          (let normalizedAddress = toLowerCase address
           in if tokenType \<noteq> None \<and> tokenType \<noteq> Some []
              then (case map_of categoryAddresses (the tokenType) of
                      None \<Rightarrow> False
                    | Some tokenAddress \<Rightarrow>
                        tokenAddress \<noteq> [] \<and> normalizedAddress = toLowerCase tokenAddress)
              else list_ex (\<lambda>(name, addr). addr \<noteq> [] \<and> toLowerCase addr = normalizedAddress)
                     categoryAddresses))"

subsection \<open>Data model\<close>

text \<open>
  Of a liquidity position the classifiers read \<^verbatim>\<open>pairAddress\<close> only, of a stake
  position \<^verbatim>\<open>reactorAddress\<close> only; the remaining fields of the two interfaces
  are carried along unread and are left out.
\<close>

record LiquidityPosition =
  pairAddress :: string

record StakePosition =
  reactorAddress :: string

text \<open>
  The indexer's answers are handed to the classifiers as \<^verbatim>\<open>any\<close>: the answer or its
  list may be \<^verbatim>\<open>undefined\<close> or \<^verbatim>\<open>null\<close> (guarded by \<^verbatim>\<open>?.\<close> and \<^verbatim>\<open>|| []\<close>), and so
  may an element of the list (reading its address then throws a \<^verbatim>\<open>TypeError\<close>).
\<close>

record LiquidityPositionsResponse =
  liquidityPosition :: "LiquidityPosition nullable list nullable"

record StakePositionsResponse =
  userStake :: "StakePosition nullable list nullable"

text \<open>
  The \<^verbatim>\<open>resourceBalances\<close> of an agent are handed to the classifiers as they are; like
  the classifiers' argument they may be \<^verbatim>\<open>undefined\<close> or \<^verbatim>\<open>null\<close>. The field
  \<^verbatim>\<open>error\<close> is optional.
\<close>

record AgentIntelligence =
  agentId :: string
  address :: string
  he3Balance :: string
  resourceBalances :: "(string \<times> string) list nullable"
  liquidityPositions :: "LiquidityPositionsResponse nullable"
  stakePositions :: "StakePositionsResponse nullable"
  error :: "string option"

record StrategicAnalysis =
  agentId :: string
  address :: string
  he3Balance :: string
  resourceFocus :: string
  pathPreference :: string
  liquidityStrategy :: string
  stakingStrategy :: string
  overallStrategy :: string
  counterStrategies :: "string list"
  error :: "string option"

text \<open>An element of the ranking.\<close>

record RankedAgent =
  agentId :: string
  address :: string
  he3Balance :: string

text \<open>\<^verbatim>\<open>liquidityPositions?.liquidityPosition || []\<close> and \<^verbatim>\<open>stakePositions?.userStake || []\<close>\<close>

definition positionsOf ::
  "LiquidityPositionsResponse nullable \<Rightarrow> LiquidityPosition nullable list" where
  "positionsOf liquidityPositions' =
     (case liquidityPositions' of
        Val r \<Rightarrow> (case liquidityPosition r of Val ps \<Rightarrow> ps | Undefined \<Rightarrow> [] | Null \<Rightarrow> [])
      | Undefined \<Rightarrow> []
      | Null \<Rightarrow> [])"

definition stakesOf ::
  "StakePositionsResponse nullable \<Rightarrow> StakePosition nullable list" where
  "stakesOf stakePositions' =
     (case stakePositions' of
        Val r \<Rightarrow> (case userStake r of Val ss \<Rightarrow> ss | Undefined \<Rightarrow> [] | Null \<Rightarrow> [])
      | Undefined \<Rightarrow> []
      | Null \<Rightarrow> [])"

text \<open>
  The \<^verbatim>\<open>TypeError\<close> thrown where a property of \<^verbatim>\<open>undefined\<close> or \<^verbatim>\<open>null\<close> is read. The
  wording of its message is the engine's.
\<close>

definition cannotRead :: js_error where
  "cannotRead = TypeError ''Cannot read properties of undefined''"

subsection \<open>Resource focus\<close>

text \<open>
  The first loop of \<^verbatim>\<open>analyzeResourceFocus\<close>; the state is the record \<^verbatim>\<open>balances\<close>,
  which starts empty and is assigned the converted balance of every entry whose balance
  is not the \<^verbatim>\<open>"Error"\<close> mark.
\<close>

fun convertBalances ::
  "(string \<times> string) list \<Rightarrow> (string \<times> int) list \<Rightarrow> (string \<times> int) list" where
  "convertBalances [] balances = balances"
| "convertBalances ((resource, balance) # rest) balances =
     (if balance \<noteq> ''Error''
      then convertBalances rest
             (assignEntry balances resource (safeBigIntConversion (Val balance) 0))
      else convertBalances rest balances)"

text \<open>\<^verbatim>\<open>([, a], [, b]) => a > b ? -1 : a < b ? 1 : 0\<close>\<close>

definition compareBalancesDescending :: "string \<times> int \<Rightarrow> string \<times> int \<Rightarrow> int" where
  "compareBalancesDescending x y =
     (let a = snd x; b = snd y in if a > b then - 1 else if a < b then 1 else 0)"

text \<open>
  The body of the \<^verbatim>\<open>try\<close> block. \<^verbatim>\<open>Object.entries(resourceBalances)\<close> is its first
  step and throws when the argument is \<^verbatim>\<open>undefined\<close> or \<^verbatim>\<open>null\<close>.
\<close>

definition analyzeResourceFocus_try ::
  "(string \<times> string) list nullable \<Rightarrow> js_error + string" where
  "analyzeResourceFocus_try resourceBalances' =
     (case entriesOf resourceBalances' of
        Inl e \<Rightarrow> Inl e
      | Inr entries \<Rightarrow>
          (let balances = convertBalances entries [];
               sortedResources = map fst (sortBy compareBalancesDescending balances)
           in case sortedResources of
                [] \<Rightarrow> Inr ''Unknown''
              | topResource # others \<Rightarrow>
                  if topResource = ''helium3'' \<and>
                     (case property balances ''helium3'' of
                        Val b \<Rightarrow> b > 0 | Undefined \<Rightarrow> False | Null \<Rightarrow> False)
                  then Inr ''He3 Accumulation''
                  else if topResource \<in> set [''graphene'', ''yttrium'']
                  then Inr (capitalize topResource @ '' Path Focus'')
                  else if topResource \<in> set [''carbon'', ''neodymium'']
                  then Inr (capitalize topResource @ '' Stockpiling'')
                  else Inr ''Balanced Resource Approach''))"

definition analyzeResourceFocus :: "(string \<times> string) list nullable \<Rightarrow> string" where
  "analyzeResourceFocus resourceBalances' =
     (case analyzeResourceFocus_try resourceBalances' of
        Inr label \<Rightarrow> label
      | Inl e \<Rightarrow> ''Analysis Error'')"

subsection \<open>Path preference\<close>

text \<open>The three loops of \<^verbatim>\<open>analyzePathPreference\<close>; the state is the pair of
  \<^verbatim>\<open>graphenePathScore\<close> and \<^verbatim>\<open>yttriumPathScore\<close>.\<close>

definition graphenePathResources :: "string list" where
  "graphenePathResources = [''carbon'', ''graphite'', ''graphene'']"

definition yttriumPathResources :: "string list" where
  "yttriumPathResources = [''neodymium'', ''dysprosium'', ''yttrium'']"

fun scoreResources :: "(string \<times> string) list \<Rightarrow> nat \<times> nat \<Rightarrow> nat \<times> nat" where
  "scoreResources [] scores = scores"
| "scoreResources ((resource, balance) # rest) (graphenePathScore, yttriumPathScore) =
     (if balance = ''Error'' then scoreResources rest (graphenePathScore, yttriumPathScore)
      else if safeBigIntConversion (Val balance) 0 = 0
      then scoreResources rest (graphenePathScore, yttriumPathScore)
      else scoreResources rest
             (if resource \<in> set graphenePathResources
              then graphenePathScore + 1 else graphenePathScore,
              if resource \<in> set yttriumPathResources
              then yttriumPathScore + 1 else yttriumPathScore))"

fun scorePositions ::
  "contracts \<Rightarrow> LiquidityPosition nullable list \<Rightarrow> nat \<times> nat \<Rightarrow> js_error + nat \<times> nat" where
  "scorePositions c [] scores = Inr scores"
| "scorePositions c (Val position # rest) (graphenePathScore, yttriumPathScore) =
     (let pairAddress' = pairAddress position
      in scorePositions c rest
           (if isAddressOfType c pairAddress' lpPairs (Some ''carbon'') \<or>
               isAddressOfType c pairAddress' lpPairs (Some ''graphite'') \<or>
               isAddressOfType c pairAddress' lpPairs (Some ''graphene'')
            then graphenePathScore + 2 else graphenePathScore,
            if isAddressOfType c pairAddress' lpPairs (Some ''neodymium'') \<or>
               isAddressOfType c pairAddress' lpPairs (Some ''dysprosium'') \<or>
               isAddressOfType c pairAddress' lpPairs (Some ''yttrium'')
            then yttriumPathScore + 2 else yttriumPathScore))"
| "scorePositions c (Undefined # rest) scores = Inl cannotRead"
| "scorePositions c (Null # rest) scores = Inl cannotRead"

fun scoreStakes ::
  "contracts \<Rightarrow> StakePosition nullable list \<Rightarrow> nat \<times> nat \<Rightarrow> js_error + nat \<times> nat" where
  "scoreStakes c [] scores = Inr scores"
| "scoreStakes c (Val stake # rest) (graphenePathScore, yttriumPathScore) =
     (let reactorAddress' = reactorAddress stake
      in scoreStakes c rest
           (if isAddressOfType c reactorAddress' reactors (Some ''grp'') \<or>
               isAddressOfType c reactorAddress' reactors (Some ''gph'')
            then graphenePathScore + 3 else graphenePathScore,
            if isAddressOfType c reactorAddress' reactors (Some ''dy'') \<or>
               isAddressOfType c reactorAddress' reactors (Some ''y'')
            then yttriumPathScore + 3 else yttriumPathScore))"
| "scoreStakes c (Undefined # rest) scores = Inl cannotRead"
| "scoreStakes c (Null # rest) scores = Inl cannotRead"

definition pathPreferenceLabel :: "nat \<times> nat \<Rightarrow> string" where
  "pathPreferenceLabel scores =
     (case scores of (graphenePathScore, yttriumPathScore) \<Rightarrow>
        if graphenePathScore > yttriumPathScore * 2 then ''Strong Graphene Path Preference''
        else if graphenePathScore > yttriumPathScore then ''Moderate Graphene Path Preference''
        else if yttriumPathScore > graphenePathScore * 2 then ''Strong Yttrium Path Preference''
        else if yttriumPathScore > graphenePathScore then ''Moderate Yttrium Path Preference''
        else ''Balanced Path Approach'')"

definition analyzePathPreference_try ::
  "contracts \<Rightarrow> (string \<times> string) list nullable \<Rightarrow> LiquidityPositionsResponse nullable \<Rightarrow>
   StakePositionsResponse nullable \<Rightarrow> js_error + string" where
  "analyzePathPreference_try c resourceBalances' liquidityPositions' stakePositions' =
     (case entriesOf resourceBalances' of
        Inl e \<Rightarrow> Inl e
      | Inr entries \<Rightarrow>
          (let scores1 = scoreResources entries (0, 0);
               positions = positionsOf liquidityPositions'
           in case scorePositions c positions scores1 of
                Inl e \<Rightarrow> Inl e
              | Inr scores2 \<Rightarrow>
                  (let stakes = stakesOf stakePositions'
                   in case scoreStakes c stakes scores2 of
                        Inl e \<Rightarrow> Inl e
                      | Inr scores3 \<Rightarrow> Inr (pathPreferenceLabel scores3))))"

definition analyzePathPreference ::
  "contracts \<Rightarrow> (string \<times> string) list nullable \<Rightarrow> LiquidityPositionsResponse nullable \<Rightarrow>
   StakePositionsResponse nullable \<Rightarrow> string" where
  "analyzePathPreference c resourceBalances' liquidityPositions' stakePositions' =
     (case analyzePathPreference_try c resourceBalances' liquidityPositions' stakePositions' of
        Inr label \<Rightarrow> label
      | Inl e \<Rightarrow> ''Analysis Error'')"

subsection \<open>Liquidity and staking strategy\<close>

text \<open>The counting loop of \<^verbatim>\<open>analyzeLiquidityStrategy\<close>; the state is the triple of the
  base, intermediate and advanced counters.\<close>

fun countPositions ::
  "contracts \<Rightarrow> LiquidityPosition nullable list \<Rightarrow> nat \<times> nat \<times> nat \<Rightarrow>
   js_error + nat \<times> nat \<times> nat" where
  "countPositions c [] counts = Inr counts"
| "countPositions c (Val position # rest)
     (baseResourcePositions, intermediateResourcePositions, advancedResourcePositions) =
     (let pairAddress' = pairAddress position
      in if isAddressOfType c pairAddress' lpPairs (Some ''carbon'') \<or>
            isAddressOfType c pairAddress' lpPairs (Some ''neodymium'')
         then countPositions c rest
                (baseResourcePositions + 1, intermediateResourcePositions,
                 advancedResourcePositions)
         else if isAddressOfType c pairAddress' lpPairs (Some ''graphite'') \<or>
                 isAddressOfType c pairAddress' lpPairs (Some ''dysprosium'')
         then countPositions c rest
                (baseResourcePositions, intermediateResourcePositions + 1,
                 advancedResourcePositions)
         else if isAddressOfType c pairAddress' lpPairs (Some ''graphene'') \<or>
                 isAddressOfType c pairAddress' lpPairs (Some ''yttrium'') \<or>
                 isAddressOfType c pairAddress' lpPairs (Some ''helium3'')
         then countPositions c rest
                (baseResourcePositions, intermediateResourcePositions,
                 advancedResourcePositions + 1)
         else countPositions c rest
                (baseResourcePositions, intermediateResourcePositions,
                 advancedResourcePositions))"
| "countPositions c (Undefined # rest) counts = Inl cannotRead"
| "countPositions c (Null # rest) counts = Inl cannotRead"

definition liquidityStrategyLabel :: "nat \<times> nat \<times> nat \<Rightarrow> string" where
  "liquidityStrategyLabel counts =
     (case counts of
        (baseResourcePositions, intermediateResourcePositions, advancedResourcePositions) \<Rightarrow>
          if advancedResourcePositions > intermediateResourcePositions \<and>
             advancedResourcePositions > baseResourcePositions
          then ''Advanced Resource Liquidity Focus''
          else if intermediateResourcePositions > baseResourcePositions
          then ''Intermediate Resource Liquidity Focus''
          else if baseResourcePositions > 0
          then ''Base Resource Liquidity Focus''
          else ''Diversified Liquidity Strategy'')"

definition analyzeLiquidityStrategy_try ::
  "contracts \<Rightarrow> LiquidityPositionsResponse nullable \<Rightarrow> js_error + string" where
  "analyzeLiquidityStrategy_try c liquidityPositions' =
     (let positions = positionsOf liquidityPositions'
      in if length positions = 0 then Inr ''No Liquidity Positions''
         else (case countPositions c positions (0, 0, 0) of
                 Inl e \<Rightarrow> Inl e
               | Inr counts \<Rightarrow> Inr (liquidityStrategyLabel counts)))"

definition analyzeLiquidityStrategy ::
  "contracts \<Rightarrow> LiquidityPositionsResponse nullable \<Rightarrow> string" where
  "analyzeLiquidityStrategy c liquidityPositions' =
     (case analyzeLiquidityStrategy_try c liquidityPositions' of
        Inr label \<Rightarrow> label
      | Inl e \<Rightarrow> ''Analysis Error'')"

text \<open>The counting loop of \<^verbatim>\<open>analyzeStakingStrategy\<close>; the fourth counter is
  \<^verbatim>\<open>he3SingleStake\<close>.\<close>

fun countStakes ::
  "contracts \<Rightarrow> StakePosition nullable list \<Rightarrow> nat \<times> nat \<times> nat \<times> nat \<Rightarrow>
   js_error + nat \<times> nat \<times> nat \<times> nat" where
  "countStakes c [] counts = Inr counts"
| "countStakes c (Val stake # rest)
     (baseResourceStakes, intermediateResourceStakes, advancedResourceStakes, he3SingleStake) =
     (let reactorAddress' = reactorAddress stake
      in if isAddressOfType c reactorAddress' reactors (Some ''grp'') \<or>
            isAddressOfType c reactorAddress' reactors (Some ''dy'')
         then countStakes c rest
                (baseResourceStakes + 1, intermediateResourceStakes,
                 advancedResourceStakes, he3SingleStake)
         else if isAddressOfType c reactorAddress' reactors (Some ''gph'') \<or>
                 isAddressOfType c reactorAddress' reactors (Some ''y'')
         then countStakes c rest
                (baseResourceStakes, intermediateResourceStakes + 1,
                 advancedResourceStakes, he3SingleStake)
         else if isAddressOfType c reactorAddress' reactors (Some ''he3'') \<and>
                 \<not> isAddressOfType c reactorAddress' reactors (Some ''he3Stake'')
         then countStakes c rest
                (baseResourceStakes, intermediateResourceStakes,
                 advancedResourceStakes + 1, he3SingleStake)
         else if isAddressOfType c reactorAddress' reactors (Some ''he3Stake'')
         then countStakes c rest
                (baseResourceStakes, intermediateResourceStakes,
                 advancedResourceStakes, he3SingleStake + 1)
         else countStakes c rest
                (baseResourceStakes, intermediateResourceStakes,
                 advancedResourceStakes, he3SingleStake))"
| "countStakes c (Undefined # rest) counts = Inl cannotRead"
| "countStakes c (Null # rest) counts = Inl cannotRead"

definition stakingStrategyLabel :: "nat \<times> nat \<times> nat \<times> nat \<Rightarrow> string" where
  "stakingStrategyLabel counts =
     (case counts of
        (baseResourceStakes, intermediateResourceStakes, advancedResourceStakes,
         he3SingleStake) \<Rightarrow>
          if he3SingleStake > 0 then ''He3 Single Stake Focus''
          else if advancedResourceStakes > intermediateResourceStakes \<and>
                  advancedResourceStakes > baseResourceStakes
          then ''Advanced Resource Staking Focus''
          else if intermediateResourceStakes > baseResourceStakes
          then ''Intermediate Resource Staking Focus''
          else if baseResourceStakes > 0
          then ''Base Resource Staking Focus''
          else ''Diversified Staking Strategy'')"

definition analyzeStakingStrategy_try ::
  "contracts \<Rightarrow> StakePositionsResponse nullable \<Rightarrow> js_error + string" where
  "analyzeStakingStrategy_try c stakePositions' =
     (let stakes = stakesOf stakePositions'
      in if length stakes = 0 then Inr ''No Staking Positions''
         else (case countStakes c stakes (0, 0, 0, 0) of
                 Inl e \<Rightarrow> Inl e
               | Inr counts \<Rightarrow> Inr (stakingStrategyLabel counts)))"

definition analyzeStakingStrategy ::
  "contracts \<Rightarrow> StakePositionsResponse nullable \<Rightarrow> string" where
  "analyzeStakingStrategy c stakePositions' =
     (case analyzeStakingStrategy_try c stakePositions' of
        Inr label \<Rightarrow> label
      | Inl e \<Rightarrow> ''Analysis Error'')"

subsection \<open>Overall strategy and counter-strategies\<close>

text \<open>\<^verbatim>\<open>resourceBalances[name] && safeBigIntConversion(resourceBalances[name]) > 0n\<close>:
  the left operand is falsy for an absent key and for the empty string.\<close>

definition hasResource :: "(string \<times> string) list \<Rightarrow> string \<Rightarrow> bool" where
  "hasResource resourceBalances' name =
     (case property resourceBalances' name of
        Undefined \<Rightarrow> False
      | Null \<Rightarrow> False
      | Val balance \<Rightarrow> balance \<noteq> [] \<and> safeBigIntConversion (Val balance) 0 > 0)"

text \<open>
  The body of the \<^verbatim>\<open>try\<close> block. The first read of \<^verbatim>\<open>resourceBalances["graphene"]\<close>
  comes after the two threshold tests and throws when the argument is \<^verbatim>\<open>undefined\<close>
  or \<^verbatim>\<open>null\<close>.
\<close>

definition determineOverallStrategy_try ::
  "(string \<times> string) list nullable \<Rightarrow> LiquidityPositionsResponse nullable \<Rightarrow>
   StakePositionsResponse nullable \<Rightarrow> string \<Rightarrow> js_error + string" where
  "determineOverallStrategy_try resourceBalances' liquidityPositions' stakePositions' he3Balance' =
     (let he3BalanceValue = safeBigIntConversion (Val he3Balance') 0;
          endGameThreshold = 800000000000000000000000;
          lateGameThreshold = 500000000000000000000000
      in if he3BalanceValue > endGameThreshold then Inr ''End Game - Final He3 Accumulation''
         else if he3BalanceValue > lateGameThreshold then Inr ''Late Game - He3 Acceleration''
         else
          (case resourceBalances' of
             Undefined \<Rightarrow> Inl cannotRead
           | Null \<Rightarrow> Inl cannotRead
           | Val entries \<Rightarrow>
               (let hasGraphene = hasResource entries ''graphene'';
                    hasYttrium = hasResource entries ''yttrium''
                in if hasGraphene \<and> hasYttrium then Inr ''Mid Game - Dual Path Production''
                   else if hasGraphene then Inr ''Mid Game - Graphene Path Focus''
                   else if hasYttrium then Inr ''Mid Game - Yttrium Path Focus''
                   else (let positions = positionsOf liquidityPositions'
                         in if length positions > 0
                            then Inr ''Early Game - Resource Conversion Setup''
                            else Inr ''Early Game - Resource Accumulation''))))"

definition determineOverallStrategy ::
  "(string \<times> string) list nullable \<Rightarrow> LiquidityPositionsResponse nullable \<Rightarrow>
   StakePositionsResponse nullable \<Rightarrow> string \<Rightarrow> string" where
  "determineOverallStrategy resourceBalances' liquidityPositions' stakePositions' he3Balance' =
     (case determineOverallStrategy_try resourceBalances' liquidityPositions' stakePositions'
             he3Balance' of
        Inr label \<Rightarrow> label
      | Inl e \<Rightarrow> ''Analysis Error'')"

text \<open>
  The body of the \<^verbatim>\<open>try\<close> block of \<^verbatim>\<open>suggestCounterStrategies\<close>. It hands
  \<^verbatim>\<open>resourceBalances\<close> on without reading it, and the two classifiers it calls catch
  their own exceptions.
\<close>

definition suggestCounterStrategies_try ::
  "contracts \<Rightarrow> (string \<times> string) list nullable \<Rightarrow> LiquidityPositionsResponse nullable \<Rightarrow>
   StakePositionsResponse nullable \<Rightarrow> string \<Rightarrow> js_error + string list" where
  "suggestCounterStrategies_try c resourceBalances' liquidityPositions' stakePositions' he3Balance' =
     (let endGameThreshold = 800000000000000000000000;
          lateGameThreshold = 500000000000000000000000;
          he3BalanceValue = safeBigIntConversion (Val he3Balance') 0
      in if he3BalanceValue > endGameThreshold
         then Inr [''Accelerate He3 production to catch up'',
                   ''Focus exclusively on He3 single staking'']
         else if he3BalanceValue > lateGameThreshold
         then Inr [''Optimize He3 production path'',
                   ''Balance between He3 single staking and GPH-Y liquidity'']
         else
          (let pathPreference' =
                 analyzePathPreference c resourceBalances' liquidityPositions' stakePositions';
               strategies1 =
                 (if includesString pathPreference' ''Graphene''
                  then [''Focus on Yttrium path to avoid competition'',
                        ''Secure Neodymium and Dysprosium resources'']
                  else if includesString pathPreference' ''Yttrium''
                  then [''Focus on Graphene path to avoid competition'',
                        ''Secure Carbon and Graphite resources'']
                  else [''Specialize in one path for efficiency'']);
               liquidityStrategy' = analyzeLiquidityStrategy c liquidityPositions';
               strategies2 =
                 (if includesString liquidityStrategy' ''Base Resource''
                  then strategies1 @ [''Focus on intermediate and advanced resource liquidity'']
                  else if includesString liquidityStrategy' ''Advanced Resource''
                  then strategies1 @ [''Ensure base resource supply chain is secure'']
                  else strategies1)
           in Inr strategies2))"

definition suggestCounterStrategies ::
  "contracts \<Rightarrow> (string \<times> string) list nullable \<Rightarrow> LiquidityPositionsResponse nullable \<Rightarrow>
   StakePositionsResponse nullable \<Rightarrow> string \<Rightarrow> string list" where
  "suggestCounterStrategies c resourceBalances' liquidityPositions' stakePositions' he3Balance' =
     (case suggestCounterStrategies_try c resourceBalances' liquidityPositions' stakePositions'
             he3Balance' of
        Inr strategies \<Rightarrow> strategies
      | Inl e \<Rightarrow> [''Analysis Error''])"

subsection \<open>Analysis of all competitors\<close>

text \<open>
  The object \<^verbatim>\<open>analysis\<close> built for one agent. The six functions called catch their
  own exceptions.
\<close>

definition analyzeAgent :: "contracts \<Rightarrow> string \<Rightarrow> AgentIntelligence \<Rightarrow> StrategicAnalysis" where
  "analyzeAgent c agentId' intelligence =
     \<lparr> StrategicAnalysis.agentId = agentId',
       address = AgentIntelligence.address intelligence,
       he3Balance = AgentIntelligence.he3Balance intelligence,
       resourceFocus = analyzeResourceFocus (resourceBalances intelligence),
       pathPreference =
         analyzePathPreference c (resourceBalances intelligence)
           (liquidityPositions intelligence) (stakePositions intelligence),
       liquidityStrategy = analyzeLiquidityStrategy c (liquidityPositions intelligence),
       stakingStrategy = analyzeStakingStrategy c (stakePositions intelligence),
       overallStrategy =
         determineOverallStrategy (resourceBalances intelligence)
           (liquidityPositions intelligence) (stakePositions intelligence)
           (AgentIntelligence.he3Balance intelligence),
       counterStrategies =
         suggestCounterStrategies c (resourceBalances intelligence)
           (liquidityPositions intelligence) (stakePositions intelligence)
           (AgentIntelligence.he3Balance intelligence),
       error = None \<rparr>"

text \<open>
  The body of the inner \<^verbatim>\<open>try\<close> block for one entry. Reading \<^verbatim>\<open>intelligence.error\<close>
  throws when the entry is \<^verbatim>\<open>undefined\<close> or \<^verbatim>\<open>null\<close>; the body yields nothing (the
  \<^verbatim>\<open>continue\<close>) when the \<^verbatim>\<open>error\<close> field is truthy, and the analysis otherwise.
\<close>

definition analyzeAgent_try ::
  "contracts \<Rightarrow> string \<Rightarrow> AgentIntelligence nullable \<Rightarrow> js_error + StrategicAnalysis option"
  where
  "analyzeAgent_try c agentId' entry =
     (case entry of
        Undefined \<Rightarrow> Inl cannotRead
      | Null \<Rightarrow> Inl cannotRead
      | Val intelligence \<Rightarrow>
          if AgentIntelligence.error intelligence \<noteq> None \<and>
             AgentIntelligence.error intelligence \<noteq> Some []
          then Inr None
          else Inr (Some (analyzeAgent c agentId' intelligence)))"

text \<open>
  The inner \<^verbatim>\<open>catch\<close> block builds the record to store from \<^verbatim>\<open>intelligence.address\<close>
  and \<^verbatim>\<open>intelligence.he3Balance\<close>; reading them throws again when the entry is
  \<^verbatim>\<open>undefined\<close> or \<^verbatim>\<open>null\<close>.
\<close>

definition analysisErrorRecord ::
  "string \<Rightarrow> AgentIntelligence nullable \<Rightarrow> js_error \<Rightarrow> js_error + StrategicAnalysis" where
  "analysisErrorRecord agentId' entry e =
     (case entry of
        Undefined \<Rightarrow> Inl cannotRead
      | Null \<Rightarrow> Inl cannotRead
      | Val intelligence \<Rightarrow>
          Inr \<lparr> StrategicAnalysis.agentId = agentId',
                address = AgentIntelligence.address intelligence,
                he3Balance =
                  (if AgentIntelligence.he3Balance intelligence \<noteq> []
                   then AgentIntelligence.he3Balance intelligence else ''0''),
                resourceFocus = ''Analysis Error'',
                pathPreference = ''Analysis Error'',
                liquidityStrategy = ''Analysis Error'',
                stakingStrategy = ''Analysis Error'',
                overallStrategy = ''Analysis Error'',
                counterStrategies = [''Analysis Error''],
                error =
                  Some (if message e \<noteq> [] then message e
                        else ''Failed to analyze strategy'') \<rparr>)"

text \<open>
  The loop over \<^verbatim>\<open>Object.entries(competitiveIntelligence)\<close>. The state is the record
  \<^verbatim>\<open>strategicAnalysis\<close>, as the map from agent identifiers to its own entries. An
  exception of the inner \<^verbatim>\<open>catch\<close> block leaves the loop.
\<close>

fun analyzeEntries ::
  "contracts \<Rightarrow> (string \<times> AgentIntelligence nullable) list \<Rightarrow>
   (string \<rightharpoonup> StrategicAnalysis) \<Rightarrow> js_error + (string \<rightharpoonup> StrategicAnalysis)" where
  "analyzeEntries c [] strategicAnalysis = Inr strategicAnalysis"
| "analyzeEntries c ((agentId', entry) # rest) strategicAnalysis =
     (case analyzeAgent_try c agentId' entry of
        Inr None \<Rightarrow> analyzeEntries c rest strategicAnalysis
      | Inr (Some analysis) \<Rightarrow>
          analyzeEntries c rest (assign strategicAnalysis agentId' analysis)
      | Inl e \<Rightarrow>
          (case analysisErrorRecord agentId' entry e of
             Inl e' \<Rightarrow> Inl e'
           | Inr failed \<Rightarrow> analyzeEntries c rest (assign strategicAnalysis agentId' failed)))"

text \<open>The outer \<^verbatim>\<open>catch\<close> block logs the exception and throws it again.\<close>

definition analyzeCompetitorStrategies ::
  "contracts \<Rightarrow> (string \<times> AgentIntelligence nullable) list \<Rightarrow>
   js_error + (string \<rightharpoonup> StrategicAnalysis)" where
  "analyzeCompetitorStrategies c competitiveIntelligence =
     (case analyzeEntries c competitiveIntelligence Map.empty of
        Inl e \<Rightarrow> Inl e
      | Inr strategicAnalysis \<Rightarrow> Inr strategicAnalysis)"

subsection \<open>Ranking\<close>

text \<open>
  \<^verbatim>\<open>getTokenBalance\<close> reads the chain; its outcome for a token and an owner is a
  parameter: a balance or a thrown error.
\<close>

type_synonym balanceReader = "string \<Rightarrow> string \<Rightarrow> js_error + int"

text \<open>\<^verbatim>\<open>getCategoryAddresses(category)\<close>\<close>

definition getCategoryAddresses ::
  "contracts \<Rightarrow> ContractCategory \<Rightarrow> string \<Rightarrow> js_error + (string \<times> string) list" where
  "getCategoryAddresses c category categoryName =
     (case c category of
        None \<Rightarrow> Inl (Error (''Contract category '' @ categoryName @ '' not found''))
      | Some categoryAddresses \<Rightarrow> Inr categoryAddresses)"

text \<open>The loop that queries every agent's balance.\<close>

fun queryBalances ::
  "balanceReader \<Rightarrow> string \<Rightarrow> (string \<times> string) list \<Rightarrow> RankedAgent list" where
  "queryBalances getTokenBalance he3Address [] = []"
| "queryBalances getTokenBalance he3Address ((agentId', agentAddress) # rest) =
     (case getTokenBalance he3Address agentAddress of
        Inr balance \<Rightarrow>
          \<lparr> RankedAgent.agentId = agentId', address = agentAddress,
            he3Balance = toString balance \<rparr>
      | Inl e \<Rightarrow>
          \<lparr> RankedAgent.agentId = agentId', address = agentAddress,
            he3Balance = ''Error'' \<rparr>)
     # queryBalances getTokenBalance he3Address rest"

text \<open>
  The comparison of the final sort,
  \<^verbatim>\<open>balanceB > balanceA ? 1 : balanceB < balanceA ? -1 : 0\<close>, on entries paired with
  \<^verbatim>\<open>BigInt(he3Balance)\<close>.
\<close>

definition compareHe3Descending :: "int \<times> RankedAgent \<Rightarrow> int \<times> RankedAgent \<Rightarrow> int" where
  "compareHe3Descending a b =
     (let balanceA = fst a; balanceB = fst b
      in if balanceB > balanceA then 1 else if balanceB < balanceA then - 1 else 0)"

text \<open>\<^verbatim>\<open>BigInt\<close> of every balance in turn; the first failure is the one thrown.\<close>

fun parseBalances :: "RankedAgent list \<Rightarrow> js_error + (int \<times> RankedAgent) list" where
  "parseBalances [] = Inr []"
| "parseBalances (a # rest) =
     (case BigInt (RankedAgent.he3Balance a) of
        Inl e \<Rightarrow> Inl e
      | Inr n \<Rightarrow> (case parseBalances rest of Inl e \<Rightarrow> Inl e | Inr ps \<Rightarrow> Inr ((n, a) # ps)))"

text \<open>
  The sort calls the comparison, and with it \<^verbatim>\<open>BigInt\<close>, only when there are two
  elements or more; a balance that does not parse then makes it throw.
\<close>

definition sortByHe3 :: "RankedAgent list \<Rightarrow> js_error + RankedAgent list" where
  "sortByHe3 xs =
     (if length xs < 2 then Inr xs
      else (case parseBalances xs of
              Inl e \<Rightarrow> Inl e
            | Inr ps \<Rightarrow> Inr (map snd (sortBy compareHe3Descending ps))))"

definition rankAgentsByHe3 :: "contracts \<Rightarrow> balanceReader \<Rightarrow> js_error + RankedAgent list" where
  "rankAgentsByHe3 c getTokenBalance =
     (case getCategoryAddresses c agents ''agents'' of
        Inl e \<Rightarrow> Inl e
      | Inr agentAddresses \<Rightarrow>
          (case getCategoryAddresses c resources ''resources'' of
             Inl e \<Rightarrow> Inl e
           | Inr resourceAddresses \<Rightarrow>
               (case property resourceAddresses ''helium3'' of
                  Val he3Address \<Rightarrow>
                    if he3Address = [] then Inl (Error ''He3 token address not found'')
                    else sortByHe3
                           (filter (\<lambda>agent. RankedAgent.he3Balance agent \<noteq> ''Error'')
                              (queryBalances getTokenBalance he3Address agentAddresses))
                | Undefined \<Rightarrow> Inl (Error ''He3 token address not found'')
                | Null \<Rightarrow> Inl (Error ''He3 token address not found''))))"

subsection \<open>Notions used to state the properties\<close>

text \<open>
  The entries of a mapping that count for the resource focus, with their balances as
  integers: the balance is not the \<^verbatim>\<open>"Error"\<close> mark, and the key is one that an
  assignment stores.
\<close>

definition countedBalances :: "(string \<times> string) list \<Rightarrow> (string \<times> int) list" where
  "countedBalances rb =
     map (\<lambda>entry. (fst entry, safeBigIntConversion (Val (snd entry)) 0))
       (filter (\<lambda>entry. snd entry \<noteq> ''Error'' \<and> fst entry \<noteq> ''__proto__'') rb)"

text \<open>At most one entry holds the greatest balance.\<close>

definition topBalanceUnique :: "(string \<times> int) list \<Rightarrow> bool" where
  "topBalanceUnique bs =
     (\<forall>x\<in>set bs. \<forall>y\<in>set bs.
        (\<forall>z\<in>set bs. snd z \<le> snd x) \<and> (\<forall>z\<in>set bs. snd z \<le> snd y) \<longrightarrow> x = y)"

text \<open>A value that is neither \<^verbatim>\<open>undefined\<close> nor \<^verbatim>\<open>null\<close>.\<close>

definition present :: "'a nullable \<Rightarrow> bool" where
  "present v = (case v of Val x \<Rightarrow> True | Undefined \<Rightarrow> False | Null \<Rightarrow> False)"

text \<open>
  An answer of the indexer that carries the given position records and nothing else: the
  answer with the list of exactly these records, or, for no record at all, an absent
  answer or an answer without a list.
\<close>

definition carriesPositions ::
  "LiquidityPositionsResponse nullable \<Rightarrow> LiquidityPosition list \<Rightarrow> bool" where
  "carriesPositions answer ps =
     (answer = Val \<lparr> liquidityPosition = Val (map Val ps) \<rparr> \<or>
      ps = [] \<and>
       (answer = Undefined \<or> answer = Null \<or>
        answer = Val \<lparr> liquidityPosition = Undefined \<rparr> \<or>
        answer = Val \<lparr> liquidityPosition = Null \<rparr>))"

definition carriesStakes ::
  "StakePositionsResponse nullable \<Rightarrow> StakePosition list \<Rightarrow> bool" where
  "carriesStakes answer ss =
     (answer = Val \<lparr> userStake = Val (map Val ss) \<rparr> \<or>
      ss = [] \<and>
       (answer = Undefined \<or> answer = Null \<or>
        answer = Val \<lparr> userStake = Undefined \<rparr> \<or>
        answer = Val \<lparr> userStake = Null \<rparr>))"

text \<open>
  The scoring rule in the words of the specification: one point for each held resource
  (a balance that is not in error and not zero) of the path's three resources, two for
  each liquidity position whose pair address belongs to the path, three for each stake
  position whose reactor address belongs to the path. Membership of an address is what
  the address lookup answers for the path's names.
\<close>

definition heldResource :: "string list \<Rightarrow> string \<times> string \<Rightarrow> bool" where
  "heldResource path entry =
     (snd entry \<noteq> ''Error'' \<and> safeBigIntConversion (Val (snd entry)) 0 \<noteq> 0 \<and>
      fst entry \<in> set path)"

definition pairBelongs :: "contracts \<Rightarrow> string list \<Rightarrow> LiquidityPosition \<Rightarrow> bool" where
  "pairBelongs c names position =
     list_ex (\<lambda>name. isAddressOfType c (pairAddress position) lpPairs (Some name)) names"

definition reactorBelongs :: "contracts \<Rightarrow> string list \<Rightarrow> StakePosition \<Rightarrow> bool" where
  "reactorBelongs c names stake =
     list_ex (\<lambda>name. isAddressOfType c (reactorAddress stake) reactors (Some name)) names"

definition spec_pathScore ::
  "contracts \<Rightarrow> string list \<Rightarrow> string list \<Rightarrow> (string \<times> string) list \<Rightarrow>
   LiquidityPosition list \<Rightarrow> StakePosition list \<Rightarrow> nat" where
  "spec_pathScore c pathResources pathReactors balances positions stakes =
     1 * length (filter (heldResource pathResources) balances) +
     2 * length (filter (pairBelongs c pathResources) positions) +
     3 * length (filter (reactorBelongs c pathReactors) stakes)"

definition spec_scoreA ::
  "contracts \<Rightarrow> (string \<times> string) list \<Rightarrow> LiquidityPosition list \<Rightarrow> StakePosition list \<Rightarrow> nat"
  where
  "spec_scoreA c balances positions stakes =
     spec_pathScore c [''carbon'', ''graphite'', ''graphene''] [''grp'', ''gph'']
       balances positions stakes"

definition spec_scoreB ::
  "contracts \<Rightarrow> (string \<times> string) list \<Rightarrow> LiquidityPosition list \<Rightarrow> StakePosition list \<Rightarrow> nat"
  where
  "spec_scoreB c balances positions stakes =
     spec_pathScore c [''neodymium'', ''dysprosium'', ''yttrium''] [''dy'', ''y'']
       balances positions stakes"

text \<open>The decision in the words of the specification, each path treated alike.\<close>

definition spec_pathPreference :: "nat \<Rightarrow> nat \<Rightarrow> string" where
  "spec_pathPreference scoreA scoreB =
     (if scoreA > 2 * scoreB then ''Strong Graphene Path Preference''
      else if scoreB > 2 * scoreA then ''Strong Yttrium Path Preference''
      else if scoreA > scoreB then ''Moderate Graphene Path Preference''
      else if scoreB > scoreA then ''Moderate Yttrium Path Preference''
      else ''Balanced Path Approach'')"

text \<open>An example configuration and example answers of the indexer.\<close>

definition exampleContracts :: contracts where
  "exampleContracts category =
     (if category = lpPairs
        then Some [(''carbon'', ''0xC1''), (''graphene'', ''0xC3''), (''yttrium'', ''0xD3'')]
      else if category = reactors
        then Some [(''grp'', ''0xE1''), (''dy'', ''0xF1''), (''he3Stake'', ''0xAA'')]
      else if category = resources then Some [(''helium3'', ''0x99'')]
      else if category = agents
        then Some [(''agent1'', ''0x1''), (''agent2'', ''0x2''), (''agent3'', ''0x3'')]
      else None)"

definition examplePairs :: "LiquidityPosition list" where
  "examplePairs =
     [\<lparr> pairAddress = ''0xc1'' \<rparr>, \<lparr> pairAddress = ''0xc3'' \<rparr>, \<lparr> pairAddress = ''0xd3'' \<rparr>]"

definition examplePositions :: "LiquidityPositionsResponse nullable" where
  "examplePositions = Val \<lparr> liquidityPosition = Val (map Val examplePairs) \<rparr>"

definition grapheneStake :: StakePosition where
  "grapheneStake = \<lparr> reactorAddress = ''0xe1'' \<rparr>"

definition yttriumStake :: StakePosition where
  "yttriumStake = \<lparr> reactorAddress = ''0xf1'' \<rparr>"

definition exampleStakes :: "StakePositionsResponse nullable" where
  "exampleStakes = Val \<lparr> userStake = Val [Val yttriumStake] \<rparr>"

text \<open>An answer whose list has a \<^verbatim>\<open>null\<close> element.\<close>

definition brokenPositions :: "LiquidityPositionsResponse nullable" where
  "brokenPositions = Val \<lparr> liquidityPosition = Val [Val \<lparr> pairAddress = ''0xc1'' \<rparr>, Null] \<rparr>"

definition brokenStakes :: "StakePositionsResponse nullable" where
  "brokenStakes = Val \<lparr> userStake = Val [Null] \<rparr>"

definition exampleBalances :: "(string \<times> string) list" where
  "exampleBalances =
     [(''carbon'', ''5''), (''graphene'', ''3''), (''yttrium'', ''0''), (''neodymium'', ''Error'')]"





text \<open>The label sets of the five classifiers.\<close>

definition resourceFocusLabels :: "string list" where
  "resourceFocusLabels =
     [''He3 Accumulation'', ''Graphene Path Focus'', ''Yttrium Path Focus'',
      ''Carbon Stockpiling'', ''Neodymium Stockpiling'', ''Balanced Resource Approach'',
      ''Unknown'', ''Analysis Error'']"

definition pathPreferenceLabels :: "string list" where
  "pathPreferenceLabels =
     [''Strong Graphene Path Preference'', ''Moderate Graphene Path Preference'',
      ''Strong Yttrium Path Preference'', ''Moderate Yttrium Path Preference'',
      ''Balanced Path Approach'', ''Analysis Error'']"

definition liquidityStrategyLabels :: "string list" where
  "liquidityStrategyLabels =
     [''No Liquidity Positions'', ''Advanced Resource Liquidity Focus'',
      ''Intermediate Resource Liquidity Focus'', ''Base Resource Liquidity Focus'',
      ''Diversified Liquidity Strategy'', ''Analysis Error'']"

definition stakingStrategyLabels :: "string list" where
  "stakingStrategyLabels =
     [''No Staking Positions'', ''He3 Single Stake Focus'', ''Advanced Resource Staking Focus'',
      ''Intermediate Resource Staking Focus'', ''Base Resource Staking Focus'',
      ''Diversified Staking Strategy'', ''Analysis Error'']"

definition overallStrategyLabels :: "string list" where
  "overallStrategyLabels =
     [''End Game - Final He3 Accumulation'', ''Late Game - He3 Acceleration'',
      ''Mid Game - Dual Path Production'', ''Mid Game - Graphene Path Focus'',
      ''Mid Game - Yttrium Path Focus'', ''Early Game - Resource Conversion Setup'',
      ''Early Game - Resource Accumulation'', ''Analysis Error'']"

text \<open>The \<^verbatim>\<open>error\<close> field holds a non-empty string: the test \<^verbatim>\<open>if (intelligence.error)\<close> succeeds.\<close>

definition errorReported :: "AgentIntelligence \<Rightarrow> bool" where
  "errorReported intelligence =
     (AgentIntelligence.error intelligence \<noteq> None \<and>
      AgentIntelligence.error intelligence \<noteq> Some [])"

text \<open>
  Example entries: an agent whose indexer answer has a \<^verbatim>\<open>null\<close> element, an agent
  whose \<^verbatim>\<open>error\<close> field is the empty string, an agent whose gathering failed, and an
  agent none of whose data can be read.
\<close>

definition exampleIntelligence :: AgentIntelligence where
  "exampleIntelligence =
     \<lparr> AgentIntelligence.agentId = ''agent1'', address = ''0x1'', he3Balance = ''0'',
       resourceBalances = Val exampleBalances, liquidityPositions = brokenPositions,
       stakePositions = exampleStakes, error = None \<rparr>"

definition emptyErrorIntelligence :: AgentIntelligence where
  "emptyErrorIntelligence =
     \<lparr> AgentIntelligence.agentId = ''agent2'', address = ''0x2'', he3Balance = ''0'',
       resourceBalances = Val [], liquidityPositions = Val \<lparr> liquidityPosition = Val [] \<rparr>,
       stakePositions = Val \<lparr> userStake = Val [] \<rparr>, error = Some [] \<rparr>"


definition failedIntelligence :: AgentIntelligence where
  "failedIntelligence =
     \<lparr> AgentIntelligence.agentId = ''agent3'', address = ''0x3'', he3Balance = ''0'',
       resourceBalances = Val [], liquidityPositions = Val \<lparr> liquidityPosition = Val [] \<rparr>,
       stakePositions = Val \<lparr> userStake = Val [] \<rparr>,
       error = Some ''Failed to get competitive intelligence'' \<rparr>"

text \<open>
  The agents whose balance was read, with the balance, in the order of the configuration;
  and the entry the ranking shows for one of them.
\<close>

definition successfulBalances ::
  "balanceReader \<Rightarrow> string \<Rightarrow> (string \<times> string) list \<Rightarrow> (string \<times> string \<times> int) list" where
  "successfulBalances getTokenBalance he3Address agentAddresses =
     concat (map (\<lambda>(agentId', agentAddress).
                    case getTokenBalance he3Address agentAddress of
                      Inr balance \<Rightarrow> [(agentId', agentAddress, balance)]
                    | Inl e \<Rightarrow> [])
               agentAddresses)"

definition balanceOf :: "string \<times> string \<times> int \<Rightarrow> int" where
  "balanceOf x = snd (snd x)"

definition rankedEntry :: "string \<times> string \<times> int \<Rightarrow> RankedAgent" where
  "rankedEntry x =
     \<lparr> RankedAgent.agentId = fst x, address = fst (snd x), he3Balance = toString (balanceOf x) \<rparr>"

text \<open>An example reader: two balances that differ by one above \<open>2^53\<close>, and a failure.\<close>

definition exampleReader :: balanceReader where
  "exampleReader token owner =
     (if owner = ''0x1'' then Inr 9007199254740992
      else if owner = ''0x3'' then Inr 9007199254740993
      else Inl (Error ''RPC failure''))"

section \<open>Verified properties\<close>

subsection \<open>Safe numeric conversion\<close>

lemma isDecimalDigit_not_space: "isDecimalDigit c \<Longrightarrow> \<not> isStrWhiteSpaceChar c"
  by (auto simp: isDecimalDigit_def isStrWhiteSpaceChar_def Let_def)

lemma digitValue_decimal:
  "isDecimalDigit c \<Longrightarrow> digitValue c = Some ((of_char c :: nat) - 48)"
  by (simp add: isDecimalDigit_def digitValue_def Let_def)

lemma digitsValue_decimal:
  "list_all isDecimalDigit s \<Longrightarrow>
   digitsValue 10 acc s = Some (foldl (\<lambda>a c. 10 * a + ((of_char c :: nat) - 48)) acc s)"
proof (induction s arbitrary: acc)
  case Nil
  then show ?case by simp
next
  case (Cons c cs)
  then have d: "isDecimalDigit c" and ds: "list_all isDecimalDigit cs" by simp_all
  have lt: "(of_char c :: nat) - 48 < 10"
    using d unfolding isDecimalDigit_def by linarith
  show ?case
    using Cons.IH [OF ds] lt by (simp add: digitValue_decimal [OF d] mult.commute)
qed

lemma parseDigits_decimal:
  "wellFormedNonNegative s \<Longrightarrow> parseDigits 10 s = Some (decimalValue s)"
  by (simp add: wellFormedNonNegative_def parseDigits_def decimalValue_def digitsValue_decimal)

lemma trimString_noop:
  assumes "s \<noteq> []" "\<not> isStrWhiteSpaceChar (hd s)" "\<not> isStrWhiteSpaceChar (last s)"
  shows "trimString s = s"
proof -
  have a: "dropWhile isStrWhiteSpaceChar s = s"
    using assms(1,2) by (cases s) simp_all
  have b: "dropWhile isStrWhiteSpaceChar (rev s) = rev s"
    using assms(1,3) by (cases "rev s") (simp_all add: hd_rev)
  show ?thesis by (simp add: trimString_def a b)
qed

lemma parseIntegerLiteral_decimal:
  assumes "wellFormedNonNegative s"
  shows "parseIntegerLiteral s = Inr (int (decimalValue s))"
proof -
  from assms obtain c cs where s: "s = c # cs" and d: "isDecimalDigit c"
    and ds: "list_all isDecimalDigit cs"
    by (cases s) (auto simp: wellFormedNonNegative_def)
  have sign: "c \<noteq> CHR ''+''" "c \<noteq> CHR ''-''"
    using d by (auto simp: isDecimalDigit_def)
  have radix: "cs \<noteq> [] \<Longrightarrow>
      hd cs \<notin> {CHR ''x'', CHR ''X'', CHR ''o'', CHR ''O'', CHR ''b'', CHR ''B''}"
    using ds by (cases cs) (auto simp: isDecimalDigit_def)
  have "parseIntegerLiteral (c # cs) = ofDigits (parseDigits 10 (c # cs))"
    using sign radix by auto
  also have "\<dots> = Inr (int (decimalValue (c # cs)))"
    using parseDigits_decimal [OF assms] by (simp add: s ofDigits_def)
  finally show ?thesis by (simp add: s)
qed

lemma BigInt_decimal:
  assumes "wellFormedNonNegative s"
  shows "BigInt s = Inr (int (decimalValue s))"
proof -
  from assms have ne: "s \<noteq> []" and all: "list_all isDecimalDigit s"
    by (simp_all add: wellFormedNonNegative_def)
  have "isDecimalDigit (hd s)" "isDecimalDigit (last s)"
    using ne all by (simp_all add: list_all_iff)
  then have "trimString s = s"
    using ne by (intro trimString_noop isDecimalDigit_not_space) simp_all
  then show ?thesis by (simp add: BigInt_def parseIntegerLiteral_decimal [OF assms])
qed

lemma BigInt_digits:
  "BigInt ''0'' = Inr 0" "BigInt ''3'' = Inr 3" "BigInt ''5'' = Inr 5"
  by (simp_all add: BigInt_def trimString_def isStrWhiteSpaceChar_def parseDigits_def
      digitValue_def ofDigits_def)

lemma BigInt_Error: "BigInt ''Error'' = Inl notABigInt"
  by (simp add: BigInt_def trimString_def isStrWhiteSpaceChar_def parseDigits_def
      digitValue_def ofDigits_def)

text \<open>
  Claim C2. \<^verbatim>\<open>safeBigIntConversion\<close> always returns a value: on a string of one or
  more decimal digits it returns what \<^verbatim>\<open>BigInt\<close> returns, the number the digits spell;
  on the empty string, \<^verbatim>\<open>undefined\<close>, \<^verbatim>\<open>null\<close>, \<^verbatim>\<open>"Error"\<close> and on every string
  that \<^verbatim>\<open>BigInt\<close> rejects it returns the default supplied by the caller.
\<close>

theorem safeBigIntConversion_contract:
  "(wellFormedNonNegative s \<longrightarrow>
      BigInt s = Inr (int (decimalValue s)) \<and>
      safeBigIntConversion (Val s) d = int (decimalValue s)) \<and>
   safeBigIntConversion (Val []) d = d \<and>
   safeBigIntConversion Undefined d = d \<and>
   safeBigIntConversion Null d = d \<and>
   safeBigIntConversion (Val ''Error'') d = d \<and>
   (BigInt t = Inl e \<longrightarrow> safeBigIntConversion (Val t) d = d)"
proof -
  have "safeBigIntConversion (Val s) d = int (decimalValue s)" if "wellFormedNonNegative s"
    using that BigInt_decimal [OF that]
    by (simp add: safeBigIntConversion_def wellFormedNonNegative_def)
  moreover have "safeBigIntConversion (Val ''Error'') d = d"
    by (simp add: safeBigIntConversion_def BigInt_Error)
  ultimately show ?thesis
    by (simp add: safeBigIntConversion_def BigInt_decimal)
qed

theorem safeBigIntConversion_contract_witness:
  "wellFormedNonNegative ''9007199254740993'' \<and>
   safeBigIntConversion (Val ''9007199254740993'') 7 = 9007199254740993 \<and>
   BigInt ''not-a-number'' = Inl notABigInt \<and>
   safeBigIntConversion (Val ''not-a-number'') 7 = 7"
proof -
  have w: "wellFormedNonNegative ''9007199254740993''"
    by (simp add: wellFormedNonNegative_def isDecimalDigit_def)
  have v: "decimalValue ''9007199254740993'' = 9007199254740993"
    by (simp add: decimalValue_def)
  have n: "BigInt ''not-a-number'' = Inl notABigInt"
    by (simp add: BigInt_def trimString_def isStrWhiteSpaceChar_def parseDigits_def
        digitValue_def ofDigits_def)
  show ?thesis
    using safeBigIntConversion_contract
      [of "''9007199254740993''" 7 "''not-a-number''" notABigInt] w v n
    by simp
qed

subsection \<open>The stable sort\<close>

lemma insertBy_insort_key:
  assumes "\<And>x y. (compare x y \<le> 0) = (f x \<le> f y)"
  shows "insertBy compare x ys = insort_key f x ys"
  by (induction ys) (simp_all add: assms)

lemma sortBy_sort_key:
  assumes "\<And>x y. (compare x y \<le> 0) = (f x \<le> f y)"
  shows "sortBy compare xs = sort_key f xs"
  by (induction xs) (simp_all add: sortBy_def insertBy_insort_key [OF assms])

lemma compareBalancesDescending_key:
  "(compareBalancesDescending x y \<le> 0) = (- snd x \<le> - snd y)"
  by (simp add: compareBalancesDescending_def Let_def)

lemma sortBy_balances:
  "sortBy compareBalancesDescending bs = sort_key (\<lambda>x. - snd x) bs"
  by (rule sortBy_sort_key) (rule compareBalancesDescending_key)

lemma hd_sort_key_least:
  assumes "xs \<noteq> []"
  shows "hd (sort_key f xs) \<in> set xs \<and> (\<forall>z\<in>set xs. f (hd (sort_key f xs)) \<le> f z)"
proof -
  let ?s = "sort_key f xs"
  have ne: "?s \<noteq> []" using assms by (metis length_sort length_0_conv)
  then obtain t ts where s: "?s = t # ts" by (cases ?s) auto
  have "sorted (map f ?s)" by (rule sorted_sort_key)
  then have "\<forall>z\<in>set ts. f t \<le> f z" by (simp add: s)
  moreover have "set ?s = set xs" by simp
  ultimately show ?thesis by (auto simp: s)
qed

lemma top_balance:
  assumes "bs \<noteq> []"
  shows "hd (sortBy compareBalancesDescending bs) \<in> set bs \<and>
         (\<forall>z\<in>set bs. snd z \<le> snd (hd (sortBy compareBalancesDescending bs)))"
  using hd_sort_key_least [OF assms, of "\<lambda>x. - snd x"] by (simp add: sortBy_balances)

lemma sortBy_Nil_iff: "sortBy compareBalancesDescending bs = [] \<longleftrightarrow> bs = []"
  by (metis sortBy_balances length_sort length_0_conv)

subsection \<open>Resource focus\<close>

lemma convertBalances_append:
  "convertBalances rb acc = acc @ countedBalances rb"
proof (induction rb arbitrary: acc)
  case Nil
  then show ?case by (simp add: countedBalances_def)
next
  case (Cons entry rb)
  obtain r b where entry: "entry = (r, b)" by (cases entry)
  have step: "countedBalances ((r, b) # rb) =
      (if b \<noteq> ''Error'' \<and> r \<noteq> ''__proto__''
       then (r, safeBigIntConversion (Val b) 0) # countedBalances rb
       else countedBalances rb)"
    by (simp add: countedBalances_def)
  show ?case
    unfolding entry step
    by (simp add: Cons.IH assignEntry_def ownKey_def)
qed

lemma convertBalances_counted: "convertBalances rb [] = countedBalances rb"
  by (simp add: convertBalances_append)

lemma countedBalances_Nil_iff:
  "countedBalances rb = [] \<longleftrightarrow> list_all (\<lambda>(r, b). b = ''Error'' \<or> r = ''__proto__'') rb"
  by (induction rb) (auto simp: countedBalances_def)

lemma capitalize_names:
  "capitalize ''graphene'' = ''Graphene''" "capitalize ''yttrium'' = ''Yttrium''"
  "capitalize ''carbon'' = ''Carbon''" "capitalize ''neodymium'' = ''Neodymium''"
  by (simp_all add: capitalize_def toUpperCaseChar_def upperLetters_def lowerLetters_def)

text \<open>The label is decided by the first of the sorted entries alone.\<close>

lemma analyzeResourceFocus_top:
  assumes "sortBy compareBalancesDescending (countedBalances rb) = (topResource, b) # others"
  shows "analyzeResourceFocus (Val rb) =
     (if topResource = ''helium3'' \<and>
         (case property (countedBalances rb) ''helium3'' of
            Val b \<Rightarrow> b > 0 | Undefined \<Rightarrow> False | Null \<Rightarrow> False)
      then ''He3 Accumulation''
      else if topResource = ''graphene'' then ''Graphene Path Focus''
      else if topResource = ''yttrium'' then ''Yttrium Path Focus''
      else if topResource = ''carbon'' then ''Carbon Stockpiling''
      else if topResource = ''neodymium'' then ''Neodymium Stockpiling''
      else ''Balanced Resource Approach'')"
  unfolding analyzeResourceFocus_def analyzeResourceFocus_try_def entriesOf_def Let_def
    convertBalances_counted
  by (simp add: assms capitalize_names)

lemma analyzeResourceFocus_empty:
  assumes "countedBalances rb = []"
  shows "analyzeResourceFocus (Val rb) = ''Unknown''"
  by (simp add: analyzeResourceFocus_def analyzeResourceFocus_try_def entriesOf_def
      convertBalances_counted assms sortBy_def)

lemma analyzeResourceFocus_nullish:
  "analyzeResourceFocus_try Undefined = Inl notAnObject"
  "analyzeResourceFocus_try Null = Inl notAnObject"
  "analyzeResourceFocus Undefined = ''Analysis Error''"
  "analyzeResourceFocus Null = ''Analysis Error''"
  by (simp_all add: analyzeResourceFocus_def analyzeResourceFocus_try_def entriesOf_def)

text \<open>
  Claim C1, as the code has it. On a mapping, \<^verbatim>\<open>analyzeResourceFocus\<close> answers
  \<^verbatim>\<open>"Unknown"\<close> exactly when no entry is left in \<^verbatim>\<open>balances\<close>, that is when every
  entry of the mapping has the \<^verbatim>\<open>"Error"\<close> mark for its balance or the key
  \<^verbatim>\<open>"__proto__"\<close> (which the assignment does not store), as in the empty mapping. An
  entry of balance zero is kept, sorted and can decide the label.
\<close>

theorem analyzeResourceFocus_Unknown_iff:
  "analyzeResourceFocus (Val rb) = ''Unknown'' \<longleftrightarrow>
     list_all (\<lambda>(r, b). b = ''Error'' \<or> r = ''__proto__'') rb"
proof (cases "countedBalances rb = []")
  case True
  then show ?thesis
    using analyzeResourceFocus_empty [OF True] by (simp add: countedBalances_Nil_iff)
next
  case False
  then have "sortBy compareBalancesDescending (countedBalances rb) \<noteq> []"
    by (simp add: sortBy_Nil_iff)
  then obtain topResource b others
    where s: "sortBy compareBalancesDescending (countedBalances rb) = (topResource, b) # others"
    by (cases "sortBy compareBalancesDescending (countedBalances rb)") auto
  have "analyzeResourceFocus (Val rb) \<noteq> ''Unknown''"
    unfolding analyzeResourceFocus_top [OF s] by simp
  then show ?thesis using False by (simp add: countedBalances_Nil_iff)
qed

theorem analyzeResourceFocus_Unknown_iff_witness:
  "analyzeResourceFocus (Val [(''carbon'', ''Error''), (''helium3'', ''Error'')]) = ''Unknown'' \<and>
   analyzeResourceFocus (Val [(''__proto__'', ''5''), (''carbon'', ''Error'')]) = ''Unknown'' \<and>
   analyzeResourceFocus (Val []) = ''Unknown'' \<and>
   analyzeResourceFocus (Val [(''carbon'', ''Error''), (''wattDollar'', ''0'')]) \<noteq> ''Unknown''"
  using analyzeResourceFocus_Unknown_iff [of "[(''carbon'', ''Error''), (''helium3'', ''Error'')]"]
    analyzeResourceFocus_Unknown_iff [of "[(''__proto__'', ''5''), (''carbon'', ''Error'')]"]
    analyzeResourceFocus_Unknown_iff [of "[]"]
    analyzeResourceFocus_Unknown_iff [of "[(''carbon'', ''Error''), (''wattDollar'', ''0'')]"]
  by simp

lemma assign_examples:
  "assignEntry [] ''carbon'' v = [(''carbon'', v)]"
  "assignEntry [] ''graphene'' v = [(''graphene'', v)]"
  "assignEntry [(''carbon'', w)] ''graphene'' v = [(''carbon'', w), (''graphene'', v)]"
  "assignEntry [(''graphene'', w)] ''carbon'' v = [(''graphene'', w), (''carbon'', v)]"
  by (simp_all add: assignEntry_def ownKey_def)

theorem analyzeResourceFocus_zero_balance_counterexample:
  "safeBigIntConversion (Val ''0'') 0 = 0 \<and>
   analyzeResourceFocus (Val [(''carbon'', ''0'')]) = ''Carbon Stockpiling''"
  by (simp add: safeBigIntConversion_def BigInt_digits analyzeResourceFocus_def
      analyzeResourceFocus_try_def entriesOf_def assign_examples sortBy_def capitalize_names)

lemma map_fst_countedBalances:
  "map fst (countedBalances rb) =
     map fst (filter (\<lambda>entry. snd entry \<noteq> ''Error'' \<and> fst entry \<noteq> ''__proto__'') rb)"
  by (simp add: countedBalances_def comp_def)

lemma distinct_countedBalances:
  "distinct (map fst rb) \<Longrightarrow> distinct (map fst (countedBalances rb))"
  by (simp add: map_fst_countedBalances distinct_map_filter)

lemma mset_countedBalances:
  "mset rb1 = mset rb2 \<Longrightarrow> mset (countedBalances rb1) = mset (countedBalances rb2)"
  by (simp add: countedBalances_def)

text \<open>
  Claim C5, as the code has it. Two mappings with the same entries in different
  enumeration orders get the same label whenever a single resource holds the greatest
  balance among the entries that count (those whose balance is not \<^verbatim>\<open>"Error"\<close> and
  whose key is not \<^verbatim>\<open>"__proto__"\<close>), or no entry counts. Among resources of equal
  greatest balance the stable sort keeps the enumeration order, and the first of them
  decides.
\<close>

theorem analyzeResourceFocus_order_independent:
  assumes keys: "distinct (map fst rb1)"
    and perm: "mset rb1 = mset rb2"
    and top: "topBalanceUnique (countedBalances rb1)"
  shows "analyzeResourceFocus (Val rb1) = analyzeResourceFocus (Val rb2)"
proof -
  let ?bs1 = "countedBalances rb1" and ?bs2 = "countedBalances rb2"
  have m: "mset ?bs1 = mset ?bs2" by (rule mset_countedBalances [OF perm])
  then have sets: "set ?bs1 = set ?bs2" by (rule mset_eq_setD)
  have "mset (map fst rb1) = mset (map fst rb2)" using perm by (metis mset_map)
  then have keys2: "distinct (map fst rb2)" using keys by (metis mset_eq_imp_distinct_iff)
  have lookup: "map_of ?bs1 = map_of ?bs2"
    using sets distinct_countedBalances [OF keys] distinct_countedBalances [OF keys2]
    by (simp add: map_of_inject_set)
  show ?thesis
  proof (cases "?bs1 = []")
    case True
    then have "?bs2 = []" using m by (metis mset_zero_iff)
    then show ?thesis
      using True by (simp add: analyzeResourceFocus_empty)
  next
    case False
    then have ne2: "?bs2 \<noteq> []" using m by (metis mset_zero_iff)
    let ?t1 = "hd (sortBy compareBalancesDescending ?bs1)"
    let ?t2 = "hd (sortBy compareBalancesDescending ?bs2)"
    have t1: "?t1 \<in> set ?bs1" "\<forall>z\<in>set ?bs1. snd z \<le> snd ?t1"
      using top_balance [OF False] by simp_all
    have t2: "?t2 \<in> set ?bs1" "\<forall>z\<in>set ?bs1. snd z \<le> snd ?t2"
      using top_balance [OF ne2] sets by simp_all
    have same: "?t1 = ?t2"
      using top t1 t2 unfolding topBalanceUnique_def by blast
    obtain r b o1 where s1: "sortBy compareBalancesDescending ?bs1 = (r, b) # o1"
      using False by (cases "sortBy compareBalancesDescending ?bs1") (auto simp: sortBy_Nil_iff)
    obtain r' b' o2 where s2: "sortBy compareBalancesDescending ?bs2 = (r', b') # o2"
      using ne2 by (cases "sortBy compareBalancesDescending ?bs2") (auto simp: sortBy_Nil_iff)
    have "r' = r" using same by (simp add: s1 s2)
    then show ?thesis
      unfolding analyzeResourceFocus_top [OF s1] analyzeResourceFocus_top [OF s2]
      by (simp add: property_def lookup)
  qed
qed

theorem analyzeResourceFocus_order_independent_witness:
  "distinct (map fst [(''__proto__'', ''7''), (''carbon'', ''3''), (''graphene'', ''5'')]) \<and>
   mset [(''__proto__'', ''7''), (''carbon'', ''3''), (''graphene'', ''5'')] =
     mset [(''graphene'', ''5''), (''carbon'', ''3''), (''__proto__'', ''7'')] \<and>
   topBalanceUnique
     (countedBalances [(''__proto__'', ''7''), (''carbon'', ''3''), (''graphene'', ''5'')]) \<and>
   analyzeResourceFocus (Val [(''__proto__'', ''7''), (''carbon'', ''3''), (''graphene'', ''5'')]) =
     analyzeResourceFocus (Val [(''graphene'', ''5''), (''carbon'', ''3''), (''__proto__'', ''7'')])"
proof -
  have d: "distinct (map fst [(''__proto__'', ''7''), (''carbon'', ''3''), (''graphene'', ''5'')])"
    by simp
  have p: "mset [(''__proto__'', ''7''), (''carbon'', ''3''), (''graphene'', ''5'')] =
      mset [(''graphene'', ''5''), (''carbon'', ''3''), (''__proto__'', ''7'')]"
    by (simp add: add_mset_commute)
  have t: "topBalanceUnique
      (countedBalances [(''__proto__'', ''7''), (''carbon'', ''3''), (''graphene'', ''5'')])"
    by (simp add: topBalanceUnique_def countedBalances_def safeBigIntConversion_def BigInt_digits)
  show ?thesis
    using analyzeResourceFocus_order_independent [OF d p t] d p t by simp
qed

theorem analyzeResourceFocus_tie_counterexample:
  "mset [(''graphene'', ''5''), (''carbon'', ''5'')] =
     mset [(''carbon'', ''5''), (''graphene'', ''5'')] \<and>
   analyzeResourceFocus (Val [(''graphene'', ''5''), (''carbon'', ''5'')]) =
     ''Graphene Path Focus'' \<and>
   analyzeResourceFocus (Val [(''carbon'', ''5''), (''graphene'', ''5'')]) =
     ''Carbon Stockpiling''"
  by (simp add: add_mset_commute safeBigIntConversion_def BigInt_digits
      analyzeResourceFocus_def analyzeResourceFocus_try_def entriesOf_def assign_examples
      sortBy_def compareBalancesDescending_def capitalize_names property_def)

subsection \<open>Path preference\<close>

lemma scoreResources_counts:
  "scoreResources rb (g, y) =
     (g + length (filter (heldResource graphenePathResources) rb),
      y + length (filter (heldResource yttriumPathResources) rb))"
  by (induction rb "(g, y)" arbitrary: g y rule: scoreResources.induct)
     (simp_all add: heldResource_def)

lemma scorePositions_counts:
  "scorePositions c (map Val ps) (g, y) =
     Inr (g + 2 * length (filter (pairBelongs c graphenePathResources) ps),
          y + 2 * length (filter (pairBelongs c yttriumPathResources) ps))"
  by (induction ps arbitrary: g y)
     (simp_all add: Let_def pairBelongs_def graphenePathResources_def yttriumPathResources_def)

lemma scoreStakes_counts:
  "scoreStakes c (map Val ss) (g, y) =
     Inr (g + 3 * length (filter (reactorBelongs c [''grp'', ''gph'']) ss),
          y + 3 * length (filter (reactorBelongs c [''dy'', ''y'']) ss))"
  by (induction ss arbitrary: g y) (simp_all add: Let_def reactorBelongs_def)

lemma positionsOf_carries: "carriesPositions lp ps \<Longrightarrow> positionsOf lp = map Val ps"
  by (auto simp: carriesPositions_def positionsOf_def)

lemma stakesOf_carries: "carriesStakes sp ss \<Longrightarrow> stakesOf sp = map Val ss"
  by (auto simp: carriesStakes_def stakesOf_def)

lemma pathPreferenceLabel_spec: "pathPreferenceLabel (a, b) = spec_pathPreference a b"
  by (simp add: pathPreferenceLabel_def spec_pathPreference_def)

text \<open>
  Claim C3. On a mapping of balances, an answer carrying the liquidity positions \<open>ps\<close>
  and an answer carrying the stake positions \<open>ss\<close>, \<^verbatim>\<open>analyzePathPreference\<close> returns
  the label that the specification's decision gives for the specification's two scores
  of the balances, of \<open>ps\<close> and of \<open>ss\<close>: one point per held resource of the path, two
  per liquidity position of the path, three per stake position of the path; strong when
  a score exceeds twice the other, moderate when it merely exceeds it, and balanced
  exactly when the two scores are equal.
\<close>

theorem analyzePathPreference_scores:
  assumes "carriesPositions lp ps" and "carriesStakes sp ss"
  shows "analyzePathPreference c (Val rb) lp sp =
           spec_pathPreference (spec_scoreA c rb ps ss) (spec_scoreB c rb ps ss) \<and>
         (analyzePathPreference c (Val rb) lp sp = ''Balanced Path Approach'' \<longleftrightarrow>
           spec_scoreA c rb ps ss = spec_scoreB c rb ps ss)"
proof -
  let ?a = "spec_scoreA c rb ps ss"
  let ?b = "spec_scoreB c rb ps ss"
  have "analyzePathPreference_try c (Val rb) lp sp = Inr (pathPreferenceLabel (?a, ?b))"
    unfolding analyzePathPreference_try_def Let_def entriesOf_def
    by (simp add: scoreResources_counts positionsOf_carries [OF assms(1)]
        stakesOf_carries [OF assms(2)] scorePositions_counts scoreStakes_counts
        spec_scoreA_def spec_scoreB_def spec_pathScore_def
        graphenePathResources_def yttriumPathResources_def)
  then have label: "analyzePathPreference c (Val rb) lp sp = spec_pathPreference ?a ?b"
    by (simp add: analyzePathPreference_def pathPreferenceLabel_spec)
  have "spec_pathPreference ?a ?b = ''Balanced Path Approach'' \<longleftrightarrow> ?a = ?b"
    unfolding spec_pathPreference_def by auto
  with label show ?thesis by simp
qed

lemma toLowerCase_examples:
  "toLowerCase ''0xc1'' = ''0xc1''" "toLowerCase ''0xC1'' = ''0xc1''"
  "toLowerCase ''0xc3'' = ''0xc3''" "toLowerCase ''0xC3'' = ''0xc3''"
  "toLowerCase ''0xd3'' = ''0xd3''" "toLowerCase ''0xD3'' = ''0xd3''"
  "toLowerCase ''0xe1'' = ''0xe1''" "toLowerCase ''0xE1'' = ''0xe1''"
  "toLowerCase ''0xf1'' = ''0xf1''" "toLowerCase ''0xF1'' = ''0xf1''"
  "toLowerCase ''0xAA'' = ''0xaa''"
  by (simp_all add: toLowerCase_def toLowerCaseChar_def upperLetters_def lowerLetters_def
      upperLatin1_def lowerLatin1_def)

lemma example_scores:
  "spec_scoreA exampleContracts exampleBalances examplePairs [grapheneStake] = 9"
  "spec_scoreB exampleContracts exampleBalances examplePairs [grapheneStake] = 2"
  "spec_scoreA exampleContracts exampleBalances examplePairs [yttriumStake, yttriumStake] = 6"
  "spec_scoreB exampleContracts exampleBalances examplePairs [yttriumStake, yttriumStake] = 8"
  by (simp_all add: spec_scoreA_def spec_scoreB_def spec_pathScore_def exampleBalances_def
      heldResource_def safeBigIntConversion_def BigInt_digits BigInt_Error examplePairs_def
      grapheneStake_def yttriumStake_def pairBelongs_def reactorBelongs_def
      isAddressOfType_def exampleContracts_def toLowerCase_examples)

theorem analyzePathPreference_scores_witness:
  "carriesPositions examplePositions examplePairs \<and>
   carriesStakes (Val \<lparr> userStake = Val [Val grapheneStake] \<rparr>) [grapheneStake] \<and>
   carriesStakes (Val \<lparr> userStake = Val [Val yttriumStake, Val yttriumStake] \<rparr>)
     [yttriumStake, yttriumStake] \<and>
   spec_scoreA exampleContracts exampleBalances examplePairs [grapheneStake] = 9 \<and>
   spec_scoreB exampleContracts exampleBalances examplePairs [grapheneStake] = 2 \<and>
   analyzePathPreference exampleContracts (Val exampleBalances) examplePositions
     (Val \<lparr> userStake = Val [Val grapheneStake] \<rparr>) = ''Strong Graphene Path Preference'' \<and>
   spec_scoreA exampleContracts exampleBalances examplePairs [yttriumStake, yttriumStake] = 6 \<and>
   spec_scoreB exampleContracts exampleBalances examplePairs [yttriumStake, yttriumStake] = 8 \<and>
   analyzePathPreference exampleContracts (Val exampleBalances) examplePositions
     (Val \<lparr> userStake = Val [Val yttriumStake, Val yttriumStake] \<rparr>) =
     ''Moderate Yttrium Path Preference''"
proof -
  have p: "carriesPositions examplePositions examplePairs"
    by (simp add: carriesPositions_def examplePositions_def)
  have s1: "carriesStakes (Val \<lparr> userStake = Val [Val grapheneStake] \<rparr>) [grapheneStake]"
    by (simp add: carriesStakes_def)
  have s2: "carriesStakes (Val \<lparr> userStake = Val [Val yttriumStake, Val yttriumStake] \<rparr>)
      [yttriumStake, yttriumStake]"
    by (simp add: carriesStakes_def)
  show ?thesis
    using analyzePathPreference_scores [OF p s1, of exampleContracts exampleBalances]
      analyzePathPreference_scores [OF p s2, of exampleContracts exampleBalances]
      p s1 s2 example_scores
    by (simp add: spec_pathPreference_def)
qed

subsection \<open>Overall strategy\<close>




lemma BigInt_thresholds:
  "BigInt ''800000000000000000000001'' = Inr 800000000000000000000001"
  "BigInt ''800000000000000000000000'' = Inr 800000000000000000000000"
  "BigInt ''500000000000000000000001'' = Inr 500000000000000000000001"
  by (simp_all add: BigInt_def trimString_def isStrWhiteSpaceChar_def parseDigits_def
      digitValue_def ofDigits_def)


text \<open>
  Claim C10. The two functions compare the converted balance with the same two
  thresholds: for every argument, the stage label is the end-game one exactly when the
  suggestions are the two end-game suggestions, and the late-game one exactly when they
  are the two late-game suggestions.
\<close>

theorem stage_and_counter_strategies_agree:
  "(determineOverallStrategy rb lp sp he3 = ''End Game - Final He3 Accumulation'' \<longleftrightarrow>
      suggestCounterStrategies c rb lp sp he3 =
        [''Accelerate He3 production to catch up'',
         ''Focus exclusively on He3 single staking'']) \<and>
   (determineOverallStrategy rb lp sp he3 = ''Late Game - He3 Acceleration'' \<longleftrightarrow>
      suggestCounterStrategies c rb lp sp he3 =
        [''Optimize He3 production path'',
         ''Balance between He3 single staking and GPH-Y liquidity''])"
  unfolding determineOverallStrategy_def determineOverallStrategy_try_def
    suggestCounterStrategies_def suggestCounterStrategies_try_def Let_def
  by (simp split: nullable.splits)

theorem stage_and_counter_strategies_agree_witness:
  "determineOverallStrategy (Val []) Undefined Undefined ''800000000000000000000001'' =
     ''End Game - Final He3 Accumulation'' \<and>
   suggestCounterStrategies exampleContracts (Val []) Undefined Undefined
     ''800000000000000000000001'' =
     [''Accelerate He3 production to catch up'', ''Focus exclusively on He3 single staking'']"
proof -
  have "determineOverallStrategy (Val []) Undefined Undefined ''800000000000000000000001'' =
      ''End Game - Final He3 Accumulation''"
    by (simp add: determineOverallStrategy_def determineOverallStrategy_try_def
        safeBigIntConversion_def BigInt_thresholds)
  then show ?thesis
    using stage_and_counter_strategies_agree
      [of "Val []" Undefined Undefined "''800000000000000000000001''" exampleContracts]
    by simp
qed

subsection \<open>Labels and faults\<close>

lemma analyzeResourceFocus_label: "analyzeResourceFocus rb \<in> set resourceFocusLabels"
proof (cases rb)
  case Undefined
  then show ?thesis by (simp add: analyzeResourceFocus_nullish resourceFocusLabels_def)
next
  case Null
  then show ?thesis by (simp add: analyzeResourceFocus_nullish resourceFocusLabels_def)
next
  case (Val entries)
  show ?thesis
  proof (cases "sortBy compareBalancesDescending (countedBalances entries)")
    case Nil
    then have "countedBalances entries = []" by (simp add: sortBy_Nil_iff)
    then show ?thesis
      by (simp add: Val analyzeResourceFocus_empty resourceFocusLabels_def)
  next
    case (Cons t others)
    then obtain r b
      where s: "sortBy compareBalancesDescending (countedBalances entries) = (r, b) # others"
      by (cases t) simp
    show ?thesis
      unfolding Val analyzeResourceFocus_top [OF s] resourceFocusLabels_def by simp
  qed
qed

lemma pathPreferenceLabel_mem: "pathPreferenceLabel s \<in> set pathPreferenceLabels"
  by (cases s) (simp add: pathPreferenceLabel_def pathPreferenceLabels_def)

lemma analyzePathPreference_label:
  "analyzePathPreference c rb lp sp \<in> set pathPreferenceLabels"
proof (cases "analyzePathPreference_try c rb lp sp")
  case (Inl e)
  then show ?thesis by (simp add: analyzePathPreference_def pathPreferenceLabels_def)
next
  case (Inr label)
  then have "\<exists>s. label = pathPreferenceLabel s"
    by (auto simp: analyzePathPreference_try_def Let_def split: sum.splits)
  then show ?thesis
    using Inr pathPreferenceLabel_mem by (auto simp: analyzePathPreference_def)
qed

lemma liquidityStrategyLabel_mem: "liquidityStrategyLabel s \<in> set liquidityStrategyLabels"
  by (cases s) (simp add: liquidityStrategyLabel_def liquidityStrategyLabels_def)

lemma analyzeLiquidityStrategy_label:
  "analyzeLiquidityStrategy c lp \<in> set liquidityStrategyLabels"
proof (cases "analyzeLiquidityStrategy_try c lp")
  case (Inl e)
  then show ?thesis by (simp add: analyzeLiquidityStrategy_def liquidityStrategyLabels_def)
next
  case (Inr label)
  then have "label = ''No Liquidity Positions'' \<or> (\<exists>s. label = liquidityStrategyLabel s)"
    by (auto simp: analyzeLiquidityStrategy_try_def Let_def split: sum.splits if_splits)
  then show ?thesis
    using Inr liquidityStrategyLabel_mem
    by (auto simp: analyzeLiquidityStrategy_def) (simp add: liquidityStrategyLabels_def)
qed

lemma stakingStrategyLabel_mem: "stakingStrategyLabel s \<in> set stakingStrategyLabels"
  by (cases s) (simp add: stakingStrategyLabel_def stakingStrategyLabels_def)

lemma analyzeStakingStrategy_label:
  "analyzeStakingStrategy c sp \<in> set stakingStrategyLabels"
proof (cases "analyzeStakingStrategy_try c sp")
  case (Inl e)
  then show ?thesis by (simp add: analyzeStakingStrategy_def stakingStrategyLabels_def)
next
  case (Inr label)
  then have "label = ''No Staking Positions'' \<or> (\<exists>s. label = stakingStrategyLabel s)"
    by (auto simp: analyzeStakingStrategy_try_def Let_def split: sum.splits if_splits)
  then show ?thesis
    using Inr stakingStrategyLabel_mem
    by (auto simp: analyzeStakingStrategy_def) (simp add: stakingStrategyLabels_def)
qed

lemma determineOverallStrategy_label:
  "determineOverallStrategy rb lp sp he3 \<in> set overallStrategyLabels"
  unfolding determineOverallStrategy_def determineOverallStrategy_try_def Let_def
    overallStrategyLabels_def
  by (simp split: nullable.splits)

text \<open>
  Claim C7. Each of the five classifiers returns a label of its own fixed set, whatever
  its input; it is a total function, and where the body of its \<^verbatim>\<open>try\<close> block throws,
  the label returned is \<^verbatim>\<open>"Analysis Error"\<close>. Each of the five bodies throws on some
  input: on \<^verbatim>\<open>null\<close> for the balances, or on an answer whose list has a \<^verbatim>\<open>null\<close>
  element.
\<close>

theorem classifiers_return_labels:
  "analyzeResourceFocus rb \<in> set resourceFocusLabels \<and>
   analyzePathPreference c rb lp sp \<in> set pathPreferenceLabels \<and>
   analyzeLiquidityStrategy c lp \<in> set liquidityStrategyLabels \<and>
   analyzeStakingStrategy c sp \<in> set stakingStrategyLabels \<and>
   determineOverallStrategy rb lp sp he3 \<in> set overallStrategyLabels \<and>
   (analyzeResourceFocus_try rb = Inl e1 \<longrightarrow> analyzeResourceFocus rb = ''Analysis Error'') \<and>
   (analyzePathPreference_try c rb lp sp = Inl e2 \<longrightarrow>
      analyzePathPreference c rb lp sp = ''Analysis Error'') \<and>
   (analyzeLiquidityStrategy_try c lp = Inl e3 \<longrightarrow>
      analyzeLiquidityStrategy c lp = ''Analysis Error'') \<and>
   (analyzeStakingStrategy_try c sp = Inl e4 \<longrightarrow>
      analyzeStakingStrategy c sp = ''Analysis Error'') \<and>
   (determineOverallStrategy_try rb lp sp he3 = Inl e5 \<longrightarrow>
      determineOverallStrategy rb lp sp he3 = ''Analysis Error'')"
  using analyzeResourceFocus_label [of rb] analyzePathPreference_label [of c rb lp sp]
    analyzeLiquidityStrategy_label [of c lp] analyzeStakingStrategy_label [of c sp]
    determineOverallStrategy_label [of rb lp sp he3]
  by (simp add: analyzeResourceFocus_def analyzePathPreference_def analyzeLiquidityStrategy_def
      analyzeStakingStrategy_def determineOverallStrategy_def)

lemma broken_tries:
  "analyzePathPreference_try exampleContracts (Val exampleBalances) brokenPositions brokenStakes =
     Inl cannotRead"
  "analyzeLiquidityStrategy_try exampleContracts brokenPositions = Inl cannotRead"
  "analyzeStakingStrategy_try exampleContracts brokenStakes = Inl cannotRead"
  by (simp_all add: analyzePathPreference_try_def analyzeLiquidityStrategy_try_def
      analyzeStakingStrategy_try_def entriesOf_def positionsOf_def stakesOf_def
      brokenPositions_def brokenStakes_def Let_def scoreResources_counts split: prod.splits)

lemma null_balances_tries:
  "analyzeResourceFocus_try Null = Inl notAnObject"
  "analyzePathPreference_try exampleContracts Null examplePositions exampleStakes =
     Inl notAnObject"
  "determineOverallStrategy_try Null examplePositions exampleStakes ''0'' = Inl cannotRead"
  by (simp_all add: analyzeResourceFocus_try_def analyzePathPreference_try_def
      determineOverallStrategy_try_def entriesOf_def safeBigIntConversion_def BigInt_digits)

theorem classifiers_return_labels_witness:
  "analyzeResourceFocus_try Null = Inl notAnObject \<and>
   analyzeResourceFocus Null = ''Analysis Error'' \<and>
   analyzePathPreference_try exampleContracts Null examplePositions exampleStakes =
     Inl notAnObject \<and>
   analyzePathPreference exampleContracts Null examplePositions exampleStakes =
     ''Analysis Error'' \<and>
   determineOverallStrategy_try Null examplePositions exampleStakes ''0'' = Inl cannotRead \<and>
   determineOverallStrategy Null examplePositions exampleStakes ''0'' = ''Analysis Error'' \<and>
   analyzePathPreference_try exampleContracts (Val exampleBalances) brokenPositions brokenStakes =
     Inl cannotRead \<and>
   analyzePathPreference exampleContracts (Val exampleBalances) brokenPositions brokenStakes =
     ''Analysis Error'' \<and>
   analyzeLiquidityStrategy_try exampleContracts brokenPositions = Inl cannotRead \<and>
   analyzeLiquidityStrategy exampleContracts brokenPositions = ''Analysis Error'' \<and>
   analyzeStakingStrategy_try exampleContracts brokenStakes = Inl cannotRead \<and>
   analyzeStakingStrategy exampleContracts brokenStakes = ''Analysis Error'' \<and>
   analyzeResourceFocus (Val exampleBalances) \<in> set resourceFocusLabels \<and>
   determineOverallStrategy (Val exampleBalances) brokenPositions brokenStakes ''0''
     \<in> set overallStrategyLabels"
  using classifiers_return_labels
      [of Null exampleContracts examplePositions exampleStakes "''0''"
          notAnObject notAnObject cannotRead cannotRead cannotRead]
    classifiers_return_labels
      [of "Val exampleBalances" exampleContracts brokenPositions brokenStakes "''0''"
          cannotRead cannotRead cannotRead cannotRead cannotRead]
    broken_tries null_balances_tries
  by simp
subsection \<open>Analysis of all competitors\<close>

lemma analyzeCompetitorStrategies_loop:
  "analyzeCompetitorStrategies c es = analyzeEntries c es Map.empty"
  by (simp add: analyzeCompetitorStrategies_def split: sum.splits)

lemma analyzeEntries_object:
  "analyzeEntries c ((k, Val i) # rest) m =
     analyzeEntries c rest (if errorReported i then m else assign m k (analyzeAgent c k i))"
  by (simp add: analyzeAgent_try_def errorReported_def)


lemma analyzeEntries_Inr_object:
  "analyzeEntries c ((k, e) # es) m = Inr m' \<Longrightarrow> \<exists>i. e = Val i"
  by (cases e) (simp_all add: analyzeAgent_try_def analysisErrorRecord_def)

lemma analyzeEntries_returns:
  "list_all (\<lambda>e. present (snd e)) es \<Longrightarrow> \<exists>m'. analyzeEntries c es m = Inr m'"
proof (induction es arbitrary: m)
  case Nil
  then show ?case by simp
next
  case (Cons entry es)
  then have "present (snd entry)" and rest: "list_all (\<lambda>e. present (snd e)) es"
    by simp_all
  then obtain k i where entry: "entry = (k, Val i)"
    by (cases entry, cases "snd entry") (simp_all add: present_def)
  show ?case
    unfolding entry analyzeEntries_object by (rule Cons.IH [OF rest])
qed


lemma dom_assign: "dom (assign m k v) = (if ownKey k then insert k (dom m) else dom m)"
  by (simp add: assign_def)

lemma dom_analyzeEntries:
  "analyzeEntries c es m = Inr m' \<Longrightarrow>
   dom m' = dom m \<union> {k. ownKey k \<and> (\<exists>i. (k, Val i) \<in> set es \<and> \<not> errorReported i)}"
proof (induction es arbitrary: m)
  case Nil
  then show ?case by simp
next
  case (Cons entry es)
  obtain k e where entry: "entry = (k, e)" by (cases entry)
  let ?kept = "\<lambda>xs. {k. ownKey k \<and> (\<exists>i. (k, Val i) \<in> set xs \<and> \<not> errorReported i)}"
  obtain i where e: "e = Val i"
    using Cons.prems analyzeEntries_Inr_object [of c k e es m] unfolding entry by blast
  let ?m = "if errorReported i then m else assign m k (analyzeAgent c k i)"
  have run: "analyzeEntries c es ?m = Inr m'"
    using Cons.prems by (simp only: entry e analyzeEntries_object)
  have "dom m' = dom ?m \<union> ?kept es" by (rule Cons.IH [OF run])
  moreover have "dom ?m \<union> ?kept es = dom m \<union> ?kept (entry # es)"
    by (auto simp: entry e dom_assign)
  ultimately show ?case by simp
qed

text \<open>
  Claim C9, as the code has it. When every entry of the map is an object,
  \<^verbatim>\<open>analyzeCompetitorStrategies\<close> returns a record for exactly the agents whose
  \<^verbatim>\<open>error\<close> field is absent or the empty string and whose identifier is one that an
  assignment stores (any but \<^verbatim>\<open>"__proto__"\<close>); an agent with such an identifier is left
  out when, and only when, its \<^verbatim>\<open>error\<close> field is a non-empty string.
\<close>

theorem analyzeCompetitorStrategies_keys:
  assumes "list_all (\<lambda>e. present (snd e)) es"
  shows "\<exists>m. analyzeCompetitorStrategies c es = Inr m \<and>
           dom m = {k. k \<noteq> ''__proto__'' \<and> (\<exists>i. (k, Val i) \<in> set es \<and> \<not> errorReported i)}"
proof -
  obtain m where m: "analyzeEntries c es Map.empty = Inr m"
    using analyzeEntries_returns [OF assms] by blast
  have "dom m = dom (Map.empty :: string \<rightharpoonup> StrategicAnalysis) \<union>
      {k. ownKey k \<and> (\<exists>i. (k, Val i) \<in> set es \<and> \<not> errorReported i)}"
    by (rule dom_analyzeEntries [OF m])
  then have "dom m = {k. k \<noteq> ''__proto__'' \<and> (\<exists>i. (k, Val i) \<in> set es \<and> \<not> errorReported i)}"
    by (simp add: ownKey_def)
  then show ?thesis
    using m by (simp add: analyzeCompetitorStrategies_loop)
qed

lemma example_errors:
  "\<not> errorReported exampleIntelligence" "\<not> errorReported emptyErrorIntelligence"
  "errorReported failedIntelligence"
  by (simp_all add: errorReported_def exampleIntelligence_def emptyErrorIntelligence_def
      failedIntelligence_def)

theorem analyzeCompetitorStrategies_keys_witness:
  "list_all (\<lambda>e. present (snd e))
     [(''agent2'', Val emptyErrorIntelligence), (''agent3'', Val failedIntelligence),
      (''__proto__'', Val exampleIntelligence)] \<and>
   (\<exists>m. analyzeCompetitorStrategies exampleContracts
          [(''agent2'', Val emptyErrorIntelligence), (''agent3'', Val failedIntelligence),
           (''__proto__'', Val exampleIntelligence)] = Inr m \<and>
        dom m = {''agent2''})"
proof -
  let ?es = "[(''agent2'', Val emptyErrorIntelligence), (''agent3'', Val failedIntelligence),
      (''__proto__'', Val exampleIntelligence)]"
  have p: "list_all (\<lambda>e. present (snd e)) ?es" by (simp add: present_def)
  have "{k. k \<noteq> ''__proto__'' \<and> (\<exists>i. (k, Val i) \<in> set ?es \<and> \<not> errorReported i)} = {''agent2''}"
    using example_errors by auto
  then show ?thesis
    using analyzeCompetitorStrategies_keys [OF p, of exampleContracts] p by simp
qed

lemma empty_classifications:
  "analyzeResourceFocus (Val []) = ''Unknown''"
  "analyzePathPreference c (Val []) (Val \<lparr> liquidityPosition = Val [] \<rparr>)
     (Val \<lparr> userStake = Val [] \<rparr>) = ''Balanced Path Approach''"
  "analyzeLiquidityStrategy c (Val \<lparr> liquidityPosition = Val [] \<rparr>) = ''No Liquidity Positions''"
  "analyzeStakingStrategy c (Val \<lparr> userStake = Val [] \<rparr>) = ''No Staking Positions''"
  "determineOverallStrategy (Val []) (Val \<lparr> liquidityPosition = Val [] \<rparr>)
     (Val \<lparr> userStake = Val [] \<rparr>) ''0'' = ''Early Game - Resource Accumulation''"
  "suggestCounterStrategies c (Val []) (Val \<lparr> liquidityPosition = Val [] \<rparr>)
     (Val \<lparr> userStake = Val [] \<rparr>) ''0'' = [''Specialize in one path for efficiency'']"
  by (simp_all add: analyzeResourceFocus_def analyzeResourceFocus_try_def sortBy_def
      analyzePathPreference_def entriesOf_def
      analyzePathPreference_try_def analyzeLiquidityStrategy_def analyzeLiquidityStrategy_try_def
      analyzeStakingStrategy_def analyzeStakingStrategy_try_def determineOverallStrategy_def
      determineOverallStrategy_try_def suggestCounterStrategies_def
      suggestCounterStrategies_try_def positionsOf_def stakesOf_def pathPreferenceLabel_def
      hasResource_def property_def safeBigIntConversion_def BigInt_digits)

theorem analyzeCompetitorStrategies_empty_error_counterexample:
  "AgentIntelligence.error emptyErrorIntelligence = Some [] \<and>
   analyzeCompetitorStrategies exampleContracts [(''agent2'', Val emptyErrorIntelligence)] =
     Inr [''agent2'' \<mapsto>
       \<lparr> StrategicAnalysis.agentId = ''agent2'', address = ''0x2'', he3Balance = ''0'',
         resourceFocus = ''Unknown'', pathPreference = ''Balanced Path Approach'',
         liquidityStrategy = ''No Liquidity Positions'',
         stakingStrategy = ''No Staking Positions'',
         overallStrategy = ''Early Game - Resource Accumulation'',
         counterStrategies = [''Specialize in one path for efficiency''],
         error = None \<rparr>]"
  by (simp add: analyzeCompetitorStrategies_def analyzeAgent_try_def analyzeAgent_def
      assign_def ownKey_def emptyErrorIntelligence_def empty_classifications)





text \<open>
  The record built by the inner \<^verbatim>\<open>catch\<close> block is never stored: every record of the
  result has no \<^verbatim>\<open>error\<close> field.
\<close>

lemma analyzeEntries_no_error_record:
  "analyzeEntries c es m = Inr m' \<Longrightarrow> m' k = Some r \<Longrightarrow>
   (\<And>r0. m k = Some r0 \<Longrightarrow> StrategicAnalysis.error r0 = None) \<Longrightarrow>
   StrategicAnalysis.error r = None"
proof (induction es arbitrary: m)
  case Nil
  then show ?case by simp
next
  case (Cons entry es)
  obtain a e where entry: "entry = (a, e)" by (cases entry)
  obtain i where e: "e = Val i"
    using Cons.prems(1) analyzeEntries_Inr_object [of c a e es m] unfolding entry by blast
  let ?n = "if errorReported i then m else assign m a (analyzeAgent c a i)"
  have run: "analyzeEntries c es ?n = Inr m'"
    using Cons.prems(1) by (simp only: entry e analyzeEntries_object)
  have "StrategicAnalysis.error r0 = None" if "?n k = Some r0" for r0
    using that Cons.prems(3) [of r0]
    by (auto simp: assign_def analyzeAgent_def split: if_splits)
  then show ?case by (rule Cons.IH [OF run Cons.prems(2)])
qed







subsection \<open>Ranking\<close>

lemma digitChar_decimal: "d < 10 \<Longrightarrow> (of_char (digitChar d) :: nat) = 48 + d"
proof -
  assume "d < 10"
  then have "d \<in> {0, 1, 2, 3, 4, 5, 6, 7, 8, 9}" by auto
  then show ?thesis by (auto simp: digitChar_def)
qed

lemma isDecimalDigit_digitChar: "d < 10 \<Longrightarrow> isDecimalDigit (digitChar d)"
  by (simp add: isDecimalDigit_def digitChar_decimal)

lemma natDigits_wellFormed: "wellFormedNonNegative (natDigits n)"
proof (induction n rule: natDigits.induct)
  case (1 n)
  show ?case
  proof (cases "n < 10")
    case True
    then show ?thesis
      by (simp add: natDigits.simps [of n] wellFormedNonNegative_def isDecimalDigit_digitChar)
  next
    case False
    then show ?thesis
      using "1.IH"
      by (simp add: natDigits.simps [of n] wellFormedNonNegative_def isDecimalDigit_digitChar)
  qed
qed

lemma decimalValue_natDigits: "decimalValue (natDigits n) = n"
proof (induction n rule: natDigits.induct)
  case (1 n)
  show ?case
  proof (cases "n < 10")
    case True
    then show ?thesis
      by (simp add: natDigits.simps [of n] decimalValue_def digitChar_decimal)
  next
    case False
    then have "decimalValue (natDigits (n div 10)) = n div 10" using "1.IH" by simp
    then show ?thesis
      using False
      by (simp add: natDigits.simps [of n] decimalValue_def digitChar_decimal)
  qed
qed

text \<open>Reading back what \<^verbatim>\<open>toString\<close> wrote gives the number.\<close>

lemma BigInt_toString: "BigInt (toString i) = Inr i"
proof (cases "i < 0")
  case False
  then show ?thesis
    using BigInt_decimal [OF natDigits_wellFormed, of "nat i"]
    by (simp add: toString_def decimalValue_natDigits)
next
  case True
  let ?ds = "natDigits (nat (- i))"
  have wf: "wellFormedNonNegative ?ds" by (rule natDigits_wellFormed)
  then have ne: "?ds \<noteq> []" and all: "list_all isDecimalDigit ?ds"
    by (simp_all add: wellFormedNonNegative_def)
  then have "isDecimalDigit (last ?ds)" by (simp add: list_all_iff)
  then have "\<not> isStrWhiteSpaceChar (last (CHR ''-'' # ?ds))"
    using ne by (simp add: isDecimalDigit_not_space)
  moreover have "\<not> isStrWhiteSpaceChar (hd (CHR ''-'' # ?ds))"
    by (simp add: isStrWhiteSpaceChar_def)
  ultimately have "trimString (CHR ''-'' # ?ds) = CHR ''-'' # ?ds"
    by (intro trimString_noop) simp_all
  moreover have "parseIntegerLiteral (CHR ''-'' # ?ds) = Inr (- int (nat (- i)))"
    by (simp add: parseDigits_decimal [OF wf] decimalValue_natDigits)
  ultimately show ?thesis
    using True by (simp add: BigInt_def toString_def)
qed

lemma toString_not_Error: "toString i \<noteq> ''Error''"
proof
  assume "toString i = ''Error''"
  then have "BigInt (toString i) = BigInt ''Error''" by simp
  then show False by (simp add: BigInt_toString BigInt_Error)
qed

lemma filter_queryBalances:
  "filter (\<lambda>agent. RankedAgent.he3Balance agent \<noteq> ''Error'') (queryBalances g h as) =
     map rankedEntry (successfulBalances g h as)"
proof (induction as)
  case Nil
  then show ?case by (simp add: successfulBalances_def)
next
  case (Cons entry as)
  obtain k a where entry: "entry = (k, a)" by (cases entry)
  have rest: "successfulBalances g h ((k, a) # as) =
      (case g h a of Inr b \<Rightarrow> [(k, a, b)] | Inl e \<Rightarrow> []) @ successfulBalances g h as"
    by (simp add: successfulBalances_def)
  show ?case
  proof (cases "g h a")
    case (Inl e)
    then show ?thesis
      using Cons.IH by (simp add: entry rest)
  next
    case (Inr b)
    then show ?thesis
      using Cons.IH
      by (simp add: entry rest rankedEntry_def balanceOf_def toString_not_Error)
  qed
qed

lemma parseBalances_ranked:
  "parseBalances (map rankedEntry bs) = Inr (map (\<lambda>x. (balanceOf x, rankedEntry x)) bs)"
  by (induction bs) (simp_all add: rankedEntry_def BigInt_toString)

lemma compareHe3Descending_key:
  "(compareHe3Descending a b \<le> 0) = (- fst a \<le> - fst b)"
  by (simp add: compareHe3Descending_def Let_def)

lemma insort_key_map:
  "insort_key f (g x) (map g ys) = map g (insort_key (\<lambda>y. f (g y)) x ys)"
  by (induction ys) simp_all

lemma sort_key_map: "sort_key f (map g xs) = map g (sort_key (\<lambda>y. f (g y)) xs)"
  by (induction xs) (simp_all add: insort_key_map)

lemma sort_key_short: "length xs < 2 \<Longrightarrow> sort_key f xs = xs"
  by (cases xs) (auto simp: length_Suc_conv)

lemma sortByHe3_ranked:
  "sortByHe3 (map rankedEntry bs) = Inr (map rankedEntry (sort_key (\<lambda>x. - balanceOf x) bs))"
proof (cases "length bs < 2")
  case True
  then show ?thesis by (simp add: sortByHe3_def sort_key_short)
next
  case False
  have "sortBy compareHe3Descending (map (\<lambda>x. (balanceOf x, rankedEntry x)) bs) =
      map (\<lambda>x. (balanceOf x, rankedEntry x)) (sort_key (\<lambda>x. - balanceOf x) bs)"
    unfolding sortBy_sort_key [of compareHe3Descending "\<lambda>p. - fst p", OF compareHe3Descending_key]
    by (simp add: sort_key_map)
  then show ?thesis
    using False by (simp add: sortByHe3_def parseBalances_ranked comp_def)
qed

text \<open>
  Claim C6. With the agents and the He3 token configured, \<^verbatim>\<open>rankAgentsByHe3\<close> returns
  the entries of exactly the agents whose balance was read (those marked \<^verbatim>\<open>"Error"\<close> are
  left out), each showing its balance in decimal, in descending order of the balances as
  integers of any size; \<^verbatim>\<open>BigInt\<close> reads every shown balance back exactly.
\<close>

theorem rankAgentsByHe3_sorted:
  assumes "c agents = Some agentAddresses"
    and "c resources = Some resourceAddresses"
    and "map_of resourceAddresses ''helium3'' = Some he3Address"
    and "he3Address \<noteq> []"
  shows "\<exists>bs. rankAgentsByHe3 c getTokenBalance = Inr (map rankedEntry bs) \<and>
           mset bs = mset (successfulBalances getTokenBalance he3Address agentAddresses) \<and>
           sorted_wrt (\<lambda>x y. balanceOf x \<ge> balanceOf y) bs \<and>
           (\<forall>x\<in>set bs. BigInt (RankedAgent.he3Balance (rankedEntry x)) = Inr (balanceOf x))"
proof -
  let ?succ = "successfulBalances getTokenBalance he3Address agentAddresses"
  let ?bs = "sort_key (\<lambda>x. - balanceOf x) ?succ"
  have "rankAgentsByHe3 c getTokenBalance = Inr (map rankedEntry ?bs)"
    using assms
    by (simp add: rankAgentsByHe3_def getCategoryAddresses_def property_def
        filter_queryBalances sortByHe3_ranked)
  moreover have "mset ?bs = mset ?succ" by simp
  moreover have "sorted_wrt (\<lambda>x y. balanceOf x \<ge> balanceOf y) ?bs"
  proof -
    have "sorted (map (\<lambda>x. - balanceOf x) ?bs)" by (rule sorted_sort_key)
    then show ?thesis by (simp add: sorted_map sorted_wrt_iff_nth_less)
  qed
  moreover have "\<forall>x\<in>set ?bs. BigInt (RankedAgent.he3Balance (rankedEntry x)) = Inr (balanceOf x)"
    by (simp add: rankedEntry_def BigInt_toString)
  ultimately show ?thesis by blast
qed

lemma example_successfulBalances:
  "successfulBalances exampleReader ''0x99''
     [(''agent1'', ''0x1''), (''agent2'', ''0x2''), (''agent3'', ''0x3'')] =
     [(''agent1'', ''0x1'', 9007199254740992), (''agent3'', ''0x3'', 9007199254740993)]"
  by (simp add: successfulBalances_def exampleReader_def)

lemma example_toString:
  "toString 9007199254740992 = ''9007199254740992''"
  "toString 9007199254740993 = ''9007199254740993''"
  by (simp_all add: toString_def natDigits.simps digitChar_def)

lemma example_BigInt:
  "BigInt ''9007199254740992'' = Inr 9007199254740992"
  "BigInt ''9007199254740993'' = Inr 9007199254740993"
  by (simp_all add: BigInt_def trimString_def isStrWhiteSpaceChar_def parseDigits_def
      digitValue_def ofDigits_def)

lemma example_ranking:
  "rankAgentsByHe3 exampleContracts exampleReader =
     Inr [\<lparr> RankedAgent.agentId = ''agent3'', address = ''0x3'',
             he3Balance = ''9007199254740993'' \<rparr>,
          \<lparr> RankedAgent.agentId = ''agent1'', address = ''0x1'',
             he3Balance = ''9007199254740992'' \<rparr>]"
  by (simp add: rankAgentsByHe3_def getCategoryAddresses_def exampleContracts_def property_def
      exampleReader_def example_toString sortByHe3_def example_BigInt sortBy_def
      compareHe3Descending_def)

theorem rankAgentsByHe3_sorted_witness:
  "exampleContracts agents =
     Some [(''agent1'', ''0x1''), (''agent2'', ''0x2''), (''agent3'', ''0x3'')] \<and>
   exampleContracts resources = Some [(''helium3'', ''0x99'')] \<and>
   map_of [(''helium3'', ''0x99'')] ''helium3'' = Some ''0x99'' \<and>
   ''0x99'' \<noteq> [] \<and>
   (\<exists>bs. rankAgentsByHe3 exampleContracts exampleReader = Inr (map rankedEntry bs) \<and>
         mset bs = mset [(''agent1'', ''0x1'', 9007199254740992),
                         (''agent3'', ''0x3'', 9007199254740993)] \<and>
         sorted_wrt (\<lambda>x y. balanceOf x \<ge> balanceOf y) bs) \<and>
   rankAgentsByHe3 exampleContracts exampleReader =
     Inr [\<lparr> RankedAgent.agentId = ''agent3'', address = ''0x3'',
             he3Balance = ''9007199254740993'' \<rparr>,
          \<lparr> RankedAgent.agentId = ''agent1'', address = ''0x1'',
             he3Balance = ''9007199254740992'' \<rparr>]"
proof -
  have a: "exampleContracts agents =
      Some [(''agent1'', ''0x1''), (''agent2'', ''0x2''), (''agent3'', ''0x3'')]"
    by (simp add: exampleContracts_def)
  have r: "exampleContracts resources = Some [(''helium3'', ''0x99'')]"
    by (simp add: exampleContracts_def)
  have h: "map_of [(''helium3'', ''0x99'')] ''helium3'' = Some ''0x99''" by simp
  have n: "''0x99'' \<noteq> []" by simp
  from rankAgentsByHe3_sorted [OF a r h n, of exampleReader]
  have "\<exists>bs. rankAgentsByHe3 exampleContracts exampleReader = Inr (map rankedEntry bs) \<and>
         mset bs = mset [(''agent1'', ''0x1'', 9007199254740992),
                         (''agent3'', ''0x3'', 9007199254740993)] \<and>
         sorted_wrt (\<lambda>x y. balanceOf x \<ge> balanceOf y) bs"
    unfolding example_successfulBalances by blast
  then show ?thesis
    using a r example_ranking by simp
qed

end

